(* ===== verification/Prelude.thy ===== *)
theory Prelude
  imports Complex_Main
begin

text \<open>
  Shared vocabulary of the development: the Python exceptions the modelled code can
  raise, the result type \<open>'a py_result\<close> (an exception or a value), the
  exception-and-state computations \<open>('s, 'a) pyst\<close> used for the code that mutates
  the host's state (the bmesh handles, the node's output sockets), and the generic
  list lemmas that the component theories share.
\<close>

section \<open>Python exceptions and results\<close>

datatype py_exc =
    IndexError
  | TypeError
  | ValueError
  | NameError
  | SyntaxError
  | ReferenceError
  | SvNoDataError
  | RuntimeError
  | AttributeError

type_synonym 'a py_result = "py_exc + 'a"

text \<open>Sequencing of pure computations that may raise, and \<open>try: ... except Exception:\<close>.\<close>

definition bind_res :: "'a py_result \<Rightarrow> ('a \<Rightarrow> 'b py_result) \<Rightarrow> 'b py_result" where
  "bind_res r f = (case r of Inl e \<Rightarrow> Inl e | Inr x \<Rightarrow> f x)"

definition except_default :: "'a py_result \<Rightarrow> 'a \<Rightarrow> 'a" where
  "except_default r d = (case r of Inr x \<Rightarrow> x | Inl _ \<Rightarrow> d)"

lemma bind_res_simps [simp]:
  "bind_res (Inl e) f = Inl e"
  "bind_res (Inr x) f = f x"
  by (simp_all add: bind_res_def)

lemma except_default_simps [simp]:
  "except_default (Inr x) d = x"
  "except_default (Inl e) d = d"
  by (simp_all add: except_default_def)

text \<open>
  A statement sequence that reads and writes a state \<open>'s\<close> and may raise: the
  exception, if any, is returned together with the state reached when it was raised,
  so that effects performed before the raise (an allocated but unreleased handle)
  remain visible.
\<close>

type_synonym ('s, 'a) pyst = "'s \<Rightarrow> 'a py_result \<times> 's"

definition ok :: "'a \<Rightarrow> ('s, 'a) pyst" where
  "ok x s = (Inr x, s)"

definition py_raise :: "py_exc \<Rightarrow> ('s, 'a) pyst" where
  "py_raise e s = (Inl e, s)"

definition bind_st :: "('s, 'a) pyst \<Rightarrow> ('a \<Rightarrow> ('s, 'b) pyst) \<Rightarrow> ('s, 'b) pyst" where
  "bind_st m f s = (case m s of (Inl e, s') \<Rightarrow> (Inl e, s') | (Inr x, s') \<Rightarrow> f x s')"

text \<open>Lifting a pure, possibly failing computation (no state effect).\<close>

definition lift_res :: "'a py_result \<Rightarrow> ('s, 'a) pyst" where
  "lift_res r s = (r, s)"

named_theorems pyst_simps "evaluation rules of the exception-and-state computations"

lemma ok_apply [pyst_simps, simp]: "ok x s = (Inr x, s)"
  by (simp add: ok_def)

lemma py_raise_apply [pyst_simps, simp]: "py_raise e s = (Inl e, s)"
  by (simp add: py_raise_def)

lemma lift_res_apply [pyst_simps, simp]: "lift_res r s = (r, s)"
  by (simp add: lift_res_def)

lemma bind_st_apply [pyst_simps]:
  "bind_st m f s = (case m s of (Inl e, s') \<Rightarrow> (Inl e, s') | (Inr x, s') \<Rightarrow> f x s')"
  by (simp add: bind_st_def)

lemma bind_st_ok [pyst_simps, simp]: "bind_st (ok x) f = f x"
  by (rule ext) (simp add: bind_st_def)

lemma bind_st_raise [pyst_simps, simp]: "bind_st (py_raise e) f = py_raise e"
  by (rule ext) (simp add: bind_st_def)

lemma bind_st_lift_Inr [pyst_simps, simp]: "bind_st (lift_res (Inr x)) f = f x"
  by (rule ext) (simp add: bind_st_def)

lemma bind_st_lift_Inl [pyst_simps, simp]: "bind_st (lift_res (Inl e)) f = py_raise e"
  by (rule ext) (simp add: bind_st_def)

lemma bind_st_assoc [pyst_simps]:
  "bind_st (bind_st m f) g = bind_st m (\<lambda>x. bind_st (f x) g)"
  by (rule ext) (simp add: bind_st_def split: prod.splits sum.splits)

text \<open>The two outcomes of a sequence, read off its first step.\<close>

lemma bind_st_Inr_iff:
  "bind_st m f s = (Inr y, s'') \<longleftrightarrow> (\<exists>x s'. m s = (Inr x, s') \<and> f x s' = (Inr y, s''))"
  by (auto simp add: bind_st_def split: prod.splits sum.splits)

lemma bind_st_Inl_iff:
  "bind_st m f s = (Inl e, s'') \<longleftrightarrow>
     (m s = (Inl e, s'') \<or> (\<exists>x s'. m s = (Inr x, s') \<and> f x s' = (Inl e, s'')))"
  by (auto simp add: bind_st_def split: prod.splits sum.splits)

text \<open>
  A state predicate that a computation keeps, whatever its outcome: the form in which
  store invariants are stated and composed along a sequence.
\<close>

definition preserves :: "('s \<Rightarrow> bool) \<Rightarrow> ('s, 'a) pyst \<Rightarrow> bool" where
  "preserves P m \<longleftrightarrow> (\<forall>s r s'. P s \<longrightarrow> m s = (r, s') \<longrightarrow> P s')"

lemma preserves_ok [intro]: "preserves P (ok x)"
  by (simp add: preserves_def)

lemma preserves_bind [intro]:
  assumes m: "preserves P m" and f: "\<And>x. preserves P (f x)"
  shows "preserves P (bind_st m f)"
  unfolding preserves_def
proof (intro allI impI)
  fix s r s'
  assume "P s" and run: "bind_st m f s = (r, s')"
  obtain r1 s1 where m1: "m s = (r1, s1)" by (cases "m s")
  with m \<open>P s\<close> have "P s1" by (auto simp: preserves_def)
  show "P s'"
  proof (cases r1)
    case (Inl e)
    with run m1 \<open>P s1\<close> show ?thesis by (simp add: bind_st_def)
  next
    case (Inr x)
    with run m1 have "f x s1 = (r, s')" by (simp add: bind_st_def)
    with f \<open>P s1\<close> show ?thesis by (auto simp: preserves_def)
  qed
qed

lemma preservesD: "preserves P m \<Longrightarrow> P s \<Longrightarrow> m s = (r, s') \<Longrightarrow> P s'"
  by (simp add: preserves_def)

section \<open>Lists\<close>

text \<open>Generic facts about padding a list with copies of its last element.\<close>

lemma nth_append_replicate_last:
  assumes "xs \<noteq> []" and "i < length xs + k"
  shows "(xs @ replicate k (last xs)) ! i = xs ! min i (length xs - 1)"
proof (cases "i < length xs")
  case True
  then have "min i (length xs - 1) = i" by linarith
  with True show ?thesis by (simp add: nth_append)
next
  case False
  then have "min i (length xs - 1) = length xs - 1" by linarith
  with False assms show ?thesis
    by (simp add: nth_append last_conv_nth)
qed

lemma last_append_replicate_last [simp]:
  "last (xs @ replicate k (last xs)) = last xs"
  by (cases k) (auto simp add: last_append)

lemma take_append_replicate_prefix:
  "take (length xs) (xs @ replicate k x) = xs"
  by simp

end
