(* ===== verification/PyValue.thy ===== *)
theory PyValue
  imports Prelude
begin

text \<open>
  The Python values that can arrive on the node's \<open>Angle\<close> socket, and the three
  Python operations the node applies to them: indexing with \<open>[0]\<close>,
  \<open>isinstance(x, (list, tuple))\<close> and \<open>float(x)\<close>. Each operation returns the
  exception Python raises where Python raises. Numbers are modelled as finite reals:
  \<open>float\<close> of a string accepts the finite decimal syntax (sign, digits, an optional
  fraction and exponent, surrounding ASCII white space); the spellings \<open>inf\<close>,
  \<open>nan\<close> and digit groups with \<open>_\<close> are outside the model. Python's \<open>str()\<close> of
  an integer is defined too, with the lemma that \<open>float()\<close> reads it back.
\<close>

section \<open>Values\<close>

datatype pyval =
    PFloat real
  | PInt int
  | PBool bool
  | PStr string
  | PList "pyval list"
  | PTuple "pyval list"
  | PArray "pyval list"  \<comment> \<open>a one-dimensional numpy array\<close>
  | PNone

text \<open>\<open>x[0]\<close>: sequences and strings are subscriptable, numbers and \<open>None\<close> are not.\<close>

fun py_getitem0 :: "pyval \<Rightarrow> pyval py_result" where
  "py_getitem0 (PList xs) = (case xs of [] \<Rightarrow> Inl IndexError | x # _ \<Rightarrow> Inr x)"
| "py_getitem0 (PTuple xs) = (case xs of [] \<Rightarrow> Inl IndexError | x # _ \<Rightarrow> Inr x)"
| "py_getitem0 (PArray xs) = (case xs of [] \<Rightarrow> Inl IndexError | x # _ \<Rightarrow> Inr x)"
| "py_getitem0 (PStr cs) = (case cs of [] \<Rightarrow> Inl IndexError | c # _ \<Rightarrow> Inr (PStr [c]))"
| "py_getitem0 _ = Inl TypeError"

text \<open>\<open>isinstance(x, (list, tuple))\<close>: a numpy array is neither.\<close>

fun py_is_list_or_tuple :: "pyval \<Rightarrow> bool" where
  "py_is_list_or_tuple (PList _) = True"
| "py_is_list_or_tuple (PTuple _) = True"
| "py_is_list_or_tuple _ = False"

section \<open>Parsing decimal strings\<close>

definition py_is_digit :: "char \<Rightarrow> bool" where
  "py_is_digit c \<longleftrightarrow> (48::nat) \<le> of_char c \<and> of_char c \<le> (57::nat)"

definition is_py_space :: "char \<Rightarrow> bool" where
  "is_py_space c \<longleftrightarrow> of_char c \<in> {9, 10, 11, 12, 13, 32 :: nat}"

definition digits_value :: "char list \<Rightarrow> nat" where
  "digits_value ds = foldl (\<lambda>acc c. 10 * acc + (of_char c - (48::nat))) 0 ds"

definition strip_spaces :: "string \<Rightarrow> string" where
  "strip_spaces s = rev (dropWhile is_py_space (rev (dropWhile is_py_space s)))"

text \<open>An optional sign: the factor it stands for and the rest of the string.\<close>

definition take_sign :: "string \<Rightarrow> int \<times> string" where
  "take_sign s =
     (case s of c # r \<Rightarrow>
        if c = CHR ''-'' then (-1, r) else if c = CHR ''+'' then (1, r) else (1, s)
      | [] \<Rightarrow> (1, s))"

text \<open>The exponent part \<open>[eE][+-]digits\<close>, or none at all.\<close>

definition parse_exponent :: "string \<Rightarrow> int option" where
  "parse_exponent s =
     (case s of
        [] \<Rightarrow> Some 0
      | c # r \<Rightarrow>
          if c = CHR ''e'' \<or> c = CHR ''E'' then
            (let (sg, r') = take_sign r
             in if r' \<noteq> [] \<and> list_all py_is_digit r' then Some (sg * int (digits_value r')) else None)
          else None)"

definition scale10 :: "int \<Rightarrow> real" where
  "scale10 e = (if 0 \<le> e then 10 ^ nat e else 1 / 10 ^ nat (- e))"

text \<open>
  \<open>[sign] (digits [. digits] | . digits) [exponent]\<close>, after white space is stripped.
\<close>

definition parse_float_str :: "string \<Rightarrow> real option" where
  "parse_float_str s =
     (let (sg, r) = take_sign (strip_spaces s);
          ip = takeWhile py_is_digit r; r1 = dropWhile py_is_digit r;
          (fp, r2) = (case r1 of c # r' \<Rightarrow>
                         if c = CHR ''.'' then (takeWhile py_is_digit r', dropWhile py_is_digit r')
                         else ([], r1)
                       | [] \<Rightarrow> ([], r1))
      in if ip = [] \<and> fp = [] then None
         else (case parse_exponent r2 of
                 None \<Rightarrow> None
               | Some e \<Rightarrow>
                   Some (of_int sg * real (digits_value (ip @ fp)) / 10 ^ length fp * scale10 e)))"

section \<open>float()\<close>

text \<open>
  \<open>float(x)\<close>: numbers convert, \<open>True\<close> and \<open>False\<close> are 1 and 0, strings are
  parsed (ValueError when they do not parse), a numpy array converts when it holds one
  element, everything else is a TypeError.
\<close>

fun py_float :: "pyval \<Rightarrow> real py_result" where
  "py_float (PFloat r) = Inr r"
| "py_float (PInt i) = Inr (of_int i)"
| "py_float (PBool b) = Inr (if b then 1 else 0)"
| "py_float (PStr s) = (case parse_float_str s of Some r \<Rightarrow> Inr r | None \<Rightarrow> Inl ValueError)"
| "py_float (PArray [x]) = py_float x"
| "py_float (PArray _) = Inl TypeError"
| "py_float _ = Inl TypeError"

section \<open>Printing integers\<close>

text \<open>
  Python's \<open>str(i)\<close> of an integer: an optional minus sign and the decimal digits,
  most significant first. It is used to state that \<open>float()\<close> reads back what
  \<open>str()\<close> prints.
\<close>

fun nat_digits :: "nat \<Rightarrow> string" where
  "nat_digits n =
     (if n < 10 then [char_of (48 + n)] else nat_digits (n div 10) @ [char_of (48 + n mod 10)])"

definition py_str_int :: "int \<Rightarrow> string" where
  "py_str_int i = (if i < 0 then CHR ''-'' # nat_digits (nat (- i)) else nat_digits (nat i))"

section \<open>Lemmas\<close>

declare nat_digits.simps [simp del]

lemma of_char_digit: "d < 10 \<Longrightarrow> of_char (char_of (48 + d) :: char) = (48 + d :: nat)"
  by (simp add: of_char_of)

lemma nat_digits_ne [simp]: "nat_digits n \<noteq> []"
  by (subst nat_digits.simps) simp

lemma nat_digits_digits: "list_all py_is_digit (nat_digits n)"
proof (induction n rule: nat_digits.induct)
  case (1 n)
  then show ?case
    by (subst nat_digits.simps) (auto simp: py_is_digit_def [abs_def] of_char_digit)
qed

lemma digits_value_snoc: "digits_value (xs @ [c]) = 10 * digits_value xs + (of_char c - 48)"
  by (simp add: digits_value_def)

lemma digits_value_nat_digits [simp]: "digits_value (nat_digits n) = n"
proof (induction n rule: nat_digits.induct)
  case (1 n)
  then show ?case
    by (subst nat_digits.simps) (simp add: digits_value_snoc of_char_digit digits_value_def)
qed

lemma not_space_digit: "py_is_digit c \<Longrightarrow> \<not> is_py_space c"
  by (auto simp: py_is_digit_def is_py_space_def)

lemma strip_spaces_id: "list_all (\<lambda>c. \<not> is_py_space c) s \<Longrightarrow> strip_spaces s = s"
proof -
  assume a: "list_all (\<lambda>c. \<not> is_py_space c) s"
  then have "dropWhile is_py_space s = s" by (cases s) auto
  moreover from a have "dropWhile is_py_space (rev s) = rev s" by (cases "rev s") (auto simp: list_all_iff dest: arg_cong[of _ _ set])
  ultimately show ?thesis by (simp add: strip_spaces_def)
qed

text \<open>\<open>float(str(i))\<close> is \<open>i\<close>: the parser reads back every printed integer.\<close>

lemma parse_float_str_py_str_int: "parse_float_str (py_str_int i) = Some (of_int i)"
proof -
  have d: "list_all py_is_digit (nat_digits n)" for n by (rule nat_digits_digits)
  have ns: "list_all (\<lambda>c. \<not> is_py_space c) (nat_digits n)" for n
    using d[of n] by (auto simp: list_all_iff not_space_digit)
  have tw: "takeWhile py_is_digit (nat_digits n) = nat_digits n" "dropWhile py_is_digit (nat_digits n) = []" for n
    using d[of n] by (simp_all add: list_all_iff)
  have hd: "hd (nat_digits n) \<noteq> CHR ''-'' \<and> hd (nat_digits n) \<noteq> CHR ''+''" for n
    using d[of n] by (cases "nat_digits n") (auto simp: py_is_digit_def)
  have ts: "take_sign (nat_digits n) = (1, nat_digits n)" for n
    using hd[of n] by (cases "nat_digits n") (auto simp: take_sign_def)
  show ?thesis
  proof (cases "i < 0")
    case True
    have "strip_spaces (CHR ''-'' # nat_digits (nat (- i))) = CHR ''-'' # nat_digits (nat (- i))"
      using ns by (intro strip_spaces_id) (simp add: is_py_space_def)
    with True show ?thesis
      by (simp add: py_str_int_def parse_float_str_def take_sign_def tw parse_exponent_def scale10_def)
  next
    case False
    then show ?thesis
      by (simp add: py_str_int_def parse_float_str_def strip_spaces_id [OF ns] ts tw parse_exponent_def scale10_def)
  qed
qed
end
