(* ===== verification/Sockets.thy ===== *)
theory Sockets
  imports Prelude
begin

text \<open>
  Node sockets as the node sees them (Sverchok's socket classes are not among the
  sources of this repository; modelled from the spec). A socket records whether it is
  linked, the data cached for it (for an input socket, the data of the upstream output
  it is linked to; for an output socket, what the node last stored with \<open>sv_set\<close>),
  and the name of the node property it displays when unlinked.
\<close>

record 'a socket =
  is_linked :: bool
  sv_cache :: "'a option"
  prop_name :: string

definition new_socket :: "'a socket" where
  "new_socket = \<lparr>is_linked = False, sv_cache = None, prop_name = []\<rparr>"

text \<open>
  \<open>sv_get(default=...)\<close>: a linked socket yields its upstream data, and raises
  \<open>SvNoDataError\<close> when the upstream has produced none; an unlinked socket yields
  the default, and raises \<open>SvNoDataError\<close> when no default is given (a mandatory
  input left unconnected).
\<close>

definition sv_get :: "'a socket \<Rightarrow> 'a option \<Rightarrow> 'a py_result" where
  "sv_get s dflt =
     (if is_linked s then (case sv_cache s of Some d \<Rightarrow> Inr d | None \<Rightarrow> Inl SvNoDataError)
      else (case dflt of Some d \<Rightarrow> Inr d | None \<Rightarrow> Inl SvNoDataError))"

definition sv_set :: "'a socket \<Rightarrow> 'a \<Rightarrow> 'a socket" where
  "sv_set s d = s\<lparr>sv_cache := Some d\<rparr>"

lemma sv_get_linked [simp]:
  "is_linked s \<Longrightarrow> sv_get s dflt = (case sv_cache s of Some d \<Rightarrow> Inr d | None \<Rightarrow> Inl SvNoDataError)"
  by (simp add: sv_get_def)

lemma sv_get_unlinked [simp]:
  "\<not> is_linked s \<Longrightarrow> sv_get s dflt = (case dflt of Some d \<Rightarrow> Inr d | None \<Rightarrow> Inl SvNoDataError)"
  by (simp add: sv_get_def)

lemma sv_set_fields [simp]:
  "is_linked (sv_set s d) = is_linked s"
  "sv_cache (sv_set s d) = Some d"
  "prop_name (sv_set s d) = prop_name s"
  by (simp_all add: sv_set_def)

end
