(* ===== verification/MeshKernel.thy ===== *)
theory MeshKernel
  imports Prelude
begin

text \<open>
  The host's mesh kernel as the node uses it. The geometric algorithms (building a
  bmesh from raw data, Blender's limited-dissolve operator, exporting raw data) belong
  to the host and are not reimplemented: they are the three fields of a
  \<open>mesh_kernel\<close> record, an interface over an abstract mesh type \<open>'m\<close>, and every
  theorem of the development holds for every kernel. What is modelled is how the node
  holds them: a bmesh is a handle into a store of live meshes (\<open>bm_world\<close>);
  \<open>bmesh_from_pydata\<close> allocates a fresh handle, \<open>dissolve_limit\<close> rewrites
  the mesh behind a handle, \<open>pydata_from_bmesh\<close> reads it, \<open>bm.free()\<close> releases
  it, and any access through a released handle raises ReferenceError. The store's
  invariant (every live handle is below the allocation counter) is kept by every
  operation.
\<close>

section \<open>The kernel interface\<close>

record ('v, 'e, 'f, 'm) mesh_kernel =
  from_pydata :: "'v list \<Rightarrow> 'e list \<Rightarrow> 'f list \<Rightarrow> 'm py_result"
  dissolve :: "real \<Rightarrow> bool \<Rightarrow> 'm \<Rightarrow> 'm py_result"
  to_pydata :: "'m \<Rightarrow> 'v list \<times> 'e list \<times> 'f list"

section \<open>The store of live meshes\<close>

record 'm bm_world =
  bm_heap :: "nat \<rightharpoonup> 'm"
  bm_next :: nat

text \<open>No bmesh is live before the node first runs.\<close>

definition bm_world_init :: "'m bm_world" where
  "bm_world_init = \<lparr>bm_heap = Map.empty, bm_next = 0\<rparr>"

definition heap_wf :: "'m bm_world \<Rightarrow> bool" where
  "heap_wf w \<longleftrightarrow> dom (bm_heap w) \<subseteq> {..< bm_next w}"

text \<open>
  \<open>bmesh_from_pydata(verts, edges, faces, normal_update=True)\<close>: builds the mesh
  (with its normals recomputed) and returns a new handle to it.
\<close>

definition bmesh_from_pydata ::
  "('v, 'e, 'f, 'm) mesh_kernel \<Rightarrow> 'v list \<Rightarrow> 'e list \<Rightarrow> 'f list \<Rightarrow> ('m bm_world, nat) pyst" where
  "bmesh_from_pydata K verts edges faces w =
     (case from_pydata K verts edges faces of
        Inl ex \<Rightarrow> (Inl ex, w)
      | Inr m \<Rightarrow> (Inr (bm_next w),
                 w\<lparr>bm_heap := (bm_heap w)(bm_next w \<mapsto> m), bm_next := Suc (bm_next w)\<rparr>))"

text \<open>\<open>bmesh.ops.dissolve_limit(bm, angle_limit, use_dissolve_boundaries, verts, edges)\<close>.\<close>

definition dissolve_limit ::
  "('v, 'e, 'f, 'm) mesh_kernel \<Rightarrow> nat \<Rightarrow> real \<Rightarrow> bool \<Rightarrow> ('m bm_world, unit) pyst" where
  "dissolve_limit K bm angle_limit use_dissolve_boundaries w =
     (case bm_heap w bm of
        None \<Rightarrow> (Inl ReferenceError, w)
      | Some m \<Rightarrow>
          (case dissolve K angle_limit use_dissolve_boundaries m of
             Inl ex \<Rightarrow> (Inl ex, w)
           | Inr m' \<Rightarrow> (Inr (), w\<lparr>bm_heap := (bm_heap w)(bm \<mapsto> m')\<rparr>)))"

definition pydata_from_bmesh ::
  "('v, 'e, 'f, 'm) mesh_kernel \<Rightarrow> nat \<Rightarrow> ('m bm_world, 'v list \<times> 'e list \<times> 'f list) pyst" where
  "pydata_from_bmesh K bm w =
     (case bm_heap w bm of
        None \<Rightarrow> (Inl ReferenceError, w)
      | Some m \<Rightarrow> (Inr (to_pydata K m), w))"

definition bm_free :: "nat \<Rightarrow> ('m bm_world, unit) pyst" where
  "bm_free bm w = (Inr (), w\<lparr>bm_heap := (bm_heap w)(bm := None)\<rparr>)"

section \<open>The store invariant\<close>

named_theorems heap_wf_intros "store operations keep the store invariant"

lemma heap_wf_bmesh_from_pydata [heap_wf_intros]:
  "preserves heap_wf (bmesh_from_pydata K v e f)"
  by (auto simp add: preserves_def heap_wf_def bmesh_from_pydata_def split: sum.splits)

lemma heap_wf_dissolve_limit [heap_wf_intros]:
  "preserves heap_wf (dissolve_limit K bm a b)"
  by (auto simp add: preserves_def heap_wf_def dissolve_limit_def split: option.splits sum.splits)

lemma heap_wf_pydata_from_bmesh [heap_wf_intros]:
  "preserves heap_wf (pydata_from_bmesh K bm)"
  by (auto simp add: preserves_def pydata_from_bmesh_def split: option.splits)

lemma heap_wf_bm_free [heap_wf_intros]:
  "preserves heap_wf (bm_free bm)"
  by (auto simp add: preserves_def heap_wf_def bm_free_def)

text \<open>The handle a successful construction returns was free before and is live after.\<close>

lemma bmesh_from_pydata_Inr:
  "bmesh_from_pydata K v e f w = (Inr h, w') \<longleftrightarrow>
     (\<exists>m. from_pydata K v e f = Inr m \<and> h = bm_next w \<and>
          w' = w\<lparr>bm_heap := (bm_heap w)(bm_next w \<mapsto> m), bm_next := Suc (bm_next w)\<rparr>)"
  by (auto simp add: bmesh_from_pydata_def split: sum.splits)

lemma heap_wf_fresh: "heap_wf w \<Longrightarrow> bm_heap w (bm_next w) = None"
  by (auto simp add: heap_wf_def)

lemmas bm_ops_defs = bmesh_from_pydata_def dissolve_limit_def pydata_from_bmesh_def bm_free_def

end
