(* ===== verification/LimitedDissolve.thy ===== *)
theory LimitedDissolve
  imports DataStructure PyValue Sockets MeshKernel
begin

text \<open>
  The Limited Dissolve node (\<open>src/nodes/modifier_change/limited_dissolve.py\<close>,
  class \<open>SvLimitedDissolve\<close>). The node's state is its two properties and its
  seven sockets (\<open>sv_limited_dissolve\<close>); the system state adds the store of live
  bmeshes (\<open>sys\<close>). \<open>process\<close> is the method \<open>process\<close> statement by
  statement: the early return when the \<open>Verts\<close> output is unlinked, the three
  \<open>sv_get\<close> calls, the angle retrieval with its two \<open>try\<close> blocks
  (\<open>retrieve_angle\<close>), \<open>match_long_repeat\<close>, the loop over the matched batches
  (\<open>dissolve_loop\<close>: construct, dissolve, export, free) and the three \<open>sv_set\<close>
  calls. The abstract contract \<open>process_spec\<close> states the node's result without
  handles: per batch, the kernel's construct-then-dissolve-then-export pipeline, over the
  long-repeat matched batches, failing with the first batch that fails.
\<close>

section \<open>State\<close>

text \<open>The node: properties \<open>angle\<close> and \<open>use_dissolve_boundaries\<close>, and its sockets.
  \<open>in_angle\<close> is \<open>None\<close> when the node has no \<open>Angle\<close> input (the guard
  \<open>'Angle' in self.inputs\<close>).\<close>

record ('v, 'e, 'f) sv_limited_dissolve =
  angle :: real
  use_dissolve_boundaries :: bool
  in_verts :: "'v list list socket"
  in_edges :: "'e list list socket"
  in_polys :: "'f list list socket"
  in_angle :: "pyval socket option"
  out_verts :: "'v list list socket"
  out_edges :: "'e list list socket"
  out_polys :: "'f list list socket"

record ('v, 'e, 'f, 'm) sys =
  sys_node :: "('v, 'e, 'f) sv_limited_dissolve"
  sys_world :: "'m bm_world"

text \<open>
  A new node: the property defaults (\<open>angle\<close> 5.0, \<open>use_dissolve_boundaries\<close>
  False) and the sockets created by \<open>sv_init\<close>, the \<open>Angle\<close> input showing the
  \<open>angle\<close> property.
\<close>

definition sv_init :: "('v, 'e, 'f) sv_limited_dissolve" where
  "sv_init =
     \<lparr>angle = 5.0, use_dissolve_boundaries = False,
      in_verts = new_socket, in_edges = new_socket, in_polys = new_socket,
      in_angle = Some (new_socket\<lparr>prop_name := ''angle''\<rparr>),
      out_verts = new_socket, out_edges = new_socket, out_polys = new_socket\<rparr>"

text \<open>
  Editing the properties in the host's UI: \<open>FloatProperty(min=0.0)\<close> clamps an
  assignment below the minimum to the minimum.
\<close>

definition set_angle :: "('v, 'e, 'f) sv_limited_dissolve \<Rightarrow> real \<Rightarrow> ('v, 'e, 'f) sv_limited_dissolve" where
  "set_angle n v = n\<lparr>angle := max 0 v\<rparr>"

definition set_use_dissolve_boundaries ::
  "('v, 'e, 'f) sv_limited_dissolve \<Rightarrow> bool \<Rightarrow> ('v, 'e, 'f) sv_limited_dissolve" where
  "set_use_dissolve_boundaries n b = n\<lparr>use_dissolve_boundaries := b\<rparr>"

section \<open>The angle\<close>

text \<open>
  Lines 59--73. Only the outer \<open>angle_values[0]\<close> is outside a \<open>try\<close>: an error
  there propagates. Inside the \<open>try\<close> blocks every exception falls back to the
  stored property.
\<close>

definition retrieve_angle :: "('v, 'e, 'f) sv_limited_dissolve \<Rightarrow> real py_result" where
  "retrieve_angle n =
     (case in_angle n of
        Some s \<Rightarrow>
          if is_linked s then
            bind_res (sv_get s (Some (PList [PFloat (angle n)]))) (\<lambda>angle_values.
            bind_res (py_getitem0 angle_values) (\<lambda>v0.
              if py_is_list_or_tuple v0
              then Inr (except_default (bind_res (py_getitem0 v0) py_float) (angle n))
              else Inr (except_default (py_float v0) (angle n))))
          else Inr (angle n)
      | None \<Rightarrow> Inr (angle n))"

section \<open>The loop over batches\<close>

text \<open>Lines 82--93, one iteration per matched batch, appending to the three result lists.\<close>

fun dissolve_loop ::
  "('v, 'e, 'f, 'm) mesh_kernel \<Rightarrow> bool \<Rightarrow> ('v list \<times> 'e list \<times> 'f list \<times> real) list \<Rightarrow>
   'v list list \<times> 'e list list \<times> 'f list list \<Rightarrow>
   ('m bm_world, 'v list list \<times> 'e list list \<times> 'f list list) pyst" where
  "dissolve_loop K b [] acc = ok acc"
| "dissolve_loop K b ((verts, edges, faces, angle_value) # meshes) (r_verts, r_edges, r_faces) =
     bind_st (bmesh_from_pydata K verts edges faces) (\<lambda>bm.
     bind_st (dissolve_limit K bm angle_value b) (\<lambda>_.
     bind_st (pydata_from_bmesh K bm) (\<lambda>(new_verts, new_edges, new_faces).
     bind_st (bm_free bm) (\<lambda>_.
     dissolve_loop K b meshes (r_verts @ [new_verts], r_edges @ [new_edges], r_faces @ [new_faces])))))"

section \<open>process\<close>

definition on_world :: "('m bm_world, 'a) pyst \<Rightarrow> (('v, 'e, 'f, 'm) sys, 'a) pyst" where
  "on_world m s = (case m (sys_world s) of (r, w') \<Rightarrow> (r, s\<lparr>sys_world := w'\<rparr>))"

text \<open>Lines 95--97.\<close>

definition set_outputs ::
  "'v list list \<Rightarrow> 'e list list \<Rightarrow> 'f list list \<Rightarrow> ('v, 'e, 'f) sv_limited_dissolve \<Rightarrow>
   ('v, 'e, 'f) sv_limited_dissolve" where
  "set_outputs r_verts r_edges r_faces n =
     n\<lparr>out_verts := sv_set (out_verts n) r_verts,
       out_edges := sv_set (out_edges n) r_edges,
       out_polys := sv_set (out_polys n) r_faces\<rparr>"

text \<open>Lines 55--97: everything after the early return.\<close>

definition process_linked ::
  "('v, 'e, 'f, 'm) mesh_kernel \<Rightarrow> ('v, 'e, 'f) sv_limited_dissolve \<Rightarrow> (('v, 'e, 'f, 'm) sys, unit) pyst" where
  "process_linked K n =
     bind_st (lift_res (sv_get (in_verts n) None)) (\<lambda>verts.
     bind_st (lift_res (sv_get (in_edges n) (Some [[]]))) (\<lambda>edges.
     bind_st (lift_res (sv_get (in_polys n) (Some [[]]))) (\<lambda>faces.
     bind_st (lift_res (retrieve_angle n)) (\<lambda>angle_value.
     case match_long_repeat4 verts edges faces [angle_value] of (mv, me, mf, ma) \<Rightarrow>
     bind_st (on_world (dissolve_loop K (use_dissolve_boundaries n) (zip4 mv me mf ma) ([], [], [])))
       (\<lambda>(r_verts, r_edges, r_faces) s'.
          (Inr (), s'\<lparr>sys_node := set_outputs r_verts r_edges r_faces (sys_node s')\<rparr>))))))"

text \<open>Lines 51--53: the method, with its early return.\<close>

definition process :: "('v, 'e, 'f, 'm) mesh_kernel \<Rightarrow> (('v, 'e, 'f, 'm) sys, unit) pyst" where
  "process K s =
     (if \<not> is_linked (out_verts (sys_node s)) then (Inr (), s)
      else process_linked K (sys_node s) s)"

section \<open>The contract\<close>

text \<open>One batch: construct the mesh, dissolve it, export it.\<close>

definition limited_dissolve_mesh ::
  "('v, 'e, 'f, 'm) mesh_kernel \<Rightarrow> bool \<Rightarrow> 'v list \<times> 'e list \<times> 'f list \<times> real \<Rightarrow>
   ('v list \<times> 'e list \<times> 'f list) py_result" where
  "limited_dissolve_mesh K b x =
     (case x of (verts, edges, faces, a) \<Rightarrow>
        bind_res (from_pydata K verts edges faces) (\<lambda>m.
        bind_res (dissolve K a b m) (\<lambda>m'. Inr (to_pydata K m'))))"

fun map_result :: "('a \<Rightarrow> 'b py_result) \<Rightarrow> 'a list \<Rightarrow> 'b list py_result" where
  "map_result f [] = Inr []"
| "map_result f (x # xs) = bind_res (f x) (\<lambda>y. bind_res (map_result f xs) (\<lambda>ys. Inr (y # ys)))"

definition unzip3 :: "('a \<times> 'b \<times> 'c) list \<Rightarrow> 'a list \<times> 'b list \<times> 'c list" where
  "unzip3 xs = (map fst xs, map (fst \<circ> snd) xs, map (snd \<circ> snd) xs)"

text \<open>
  The node's contract: \<open>Inr None\<close> when it does nothing, \<open>Inr (Some outs)\<close> for
  the three output collections, \<open>Inl ex\<close> for the exception that escapes.
\<close>

definition process_spec ::
  "('v, 'e, 'f, 'm) mesh_kernel \<Rightarrow> ('v, 'e, 'f) sv_limited_dissolve \<Rightarrow>
   ('v list list \<times> 'e list list \<times> 'f list list) option py_result" where
  "process_spec K n =
     (if \<not> is_linked (out_verts n) then Inr None
      else
        bind_res (sv_get (in_verts n) None) (\<lambda>verts.
        bind_res (sv_get (in_edges n) (Some [[]])) (\<lambda>edges.
        bind_res (sv_get (in_polys n) (Some [[]])) (\<lambda>faces.
        bind_res (retrieve_angle n) (\<lambda>a.
        case match_long_repeat4 verts edges faces [a] of (mv, me, mf, ma) \<Rightarrow>
        bind_res (map_result (limited_dissolve_mesh K (use_dissolve_boundaries n)) (zip4 mv me mf ma))
          (\<lambda>ys. Inr (Some (unzip3 ys))))))))"

text \<open>A kernel whose construction and dissolve never raise.\<close>

definition kernel_total :: "('v, 'e, 'f, 'm) mesh_kernel \<Rightarrow> bool" where
  "kernel_total K \<longleftrightarrow> (\<forall>v e f. \<exists>m. from_pydata K v e f = Inr m) \<and> (\<forall>a b m. \<exists>m'. dissolve K a b m = Inr m')"

section \<open>The node in its host\<close>

text \<open>
  The states a node goes through: created by \<open>sv_init\<close> with no live bmesh; its
  properties edited in the UI (the only way they change, each edit triggering
  \<open>updateNode\<close>); its sockets relinked and their upstream data changed by the rest of
  the node tree (anything but the two properties); evaluated by the host's scheduler
  (\<open>process\<close>, whatever its outcome).
\<close>

inductive reachable :: "('v, 'e, 'f, 'm) mesh_kernel \<Rightarrow> ('v, 'e, 'f, 'm) sys \<Rightarrow> bool" for K where
  init: "reachable K \<lparr>sys_node = sv_init, sys_world = bm_world_init\<rparr>"
| edit_angle: "reachable K s \<Longrightarrow> reachable K (s\<lparr>sys_node := set_angle (sys_node s) v\<rparr>)"
| edit_boundaries: "reachable K s \<Longrightarrow>
    reachable K (s\<lparr>sys_node := set_use_dissolve_boundaries (sys_node s) b\<rparr>)"
| relink: "reachable K s \<Longrightarrow> angle n = angle (sys_node s) \<Longrightarrow>
    use_dissolve_boundaries n = use_dissolve_boundaries (sys_node s) \<Longrightarrow>
    reachable K (s\<lparr>sys_node := n\<rparr>)"
| evaluate: "reachable K s \<Longrightarrow> process K s = (r, s') \<Longrightarrow> reachable K s'"

section \<open>Example inputs\<close>

text \<open>
  Concrete inputs at which the theorems below are evaluated: Python mesh data (vertices
  as coordinate triples, edges as index pairs, faces as index lists), a kernel that
  returns the mesh unchanged, one whose dissolve raises, and a node with a triangle on
  its inputs and its \<open>Verts\<close> output linked.
\<close>

type_synonym vert = "real \<times> real \<times> real"
type_synonym edge = "nat \<times> nat"
type_synonym face = "nat list"
type_synonym pymesh = "vert list \<times> edge list \<times> face list"

definition identity_kernel :: "(vert, edge, face, pymesh) mesh_kernel" where
  "identity_kernel =
     \<lparr>from_pydata = (\<lambda>v e f. Inr (v, e, f)), dissolve = (\<lambda>a b m. Inr m), to_pydata = id\<rparr>"

definition failing_kernel :: "(vert, edge, face, pymesh) mesh_kernel" where
  "failing_kernel =
     \<lparr>from_pydata = (\<lambda>v e f. Inr (v, e, f)), dissolve = (\<lambda>a b m. Inl RuntimeError), to_pydata = id\<rparr>"

definition linked_socket :: "'a \<Rightarrow> 'a socket" where
  "linked_socket d = new_socket\<lparr>is_linked := True, sv_cache := Some d\<rparr>"

definition example_node :: "(vert, edge, face) sv_limited_dissolve" where
  "example_node =
     sv_init\<lparr>in_verts := linked_socket [[(0, 0, 0), (1, 0, 0), (1, 1, 0)]],
             in_polys := linked_socket [[[0, 1, 2]]],
             out_verts := new_socket\<lparr>is_linked := True\<rparr>\<rparr>"

definition example_sys :: "(vert, edge, face, pymesh) sys" where
  "example_sys = \<lparr>sys_node = example_node, sys_world = bm_world_init\<rparr>"

section \<open>The loop implements the contract\<close>

text \<open>
  On success the loop returns, appended to its accumulators, exactly the per-batch
  results of the contract, and the store is as before: every handle allocated in an
  iteration is freed in it (the handle is fresh by the store invariant). On failure it
  raises the contract's exception; at most one handle is then left live, the one of the
  batch whose dissolve raised, since \<open>bm.free()\<close> is not in a \<open>finally\<close>.
\<close>

lemma dissolve_loop_Inr:
  assumes "heap_wf w" and "map_result (limited_dissolve_mesh K b) xs = Inr ys"
  shows "dissolve_loop K b xs (rv, re, rf) w =
    (Inr (rv @ map fst ys, re @ map (fst \<circ> snd) ys, rf @ map (snd \<circ> snd) ys),
     w\<lparr>bm_next := bm_next w + length xs\<rparr>)"
  using assms
proof (induction xs arbitrary: w rv re rf ys)
  case Nil
  then show ?case by simp
next
  case (Cons x xs)
  obtain verts edges faces a where x: "x = (verts, edges, faces, a)" by (cases x)
  from Cons.prems(2) obtain y ys' where
    hd: "limited_dissolve_mesh K b x = Inr y" and
    rest: "map_result (limited_dissolve_mesh K b) xs = Inr ys'" and ys: "ys = y # ys'"
    by (auto simp: bind_res_def split: sum.splits)
  from hd obtain m m' where
    fp: "from_pydata K verts edges faces = Inr m" and dk: "dissolve K a b m = Inr m'" and
    y: "y = to_pydata K m'"
    by (auto simp: x limited_dissolve_mesh_def bind_res_def split: sum.splits)
  obtain nv ne nf where y3: "to_pydata K m' = (nv, ne, nf)" by (cases "to_pydata K m'")
  let ?w1 = "w\<lparr>bm_next := Suc (bm_next w)\<rparr>"
  have fresh: "bm_heap w (bm_next w) = None" using Cons.prems(1) by (rule heap_wf_fresh)
  have wf1: "heap_wf ?w1" using Cons.prems(1) by (auto simp: heap_wf_def)
  have step: "dissolve_loop K b (x # xs) (rv, re, rf) w =
      dissolve_loop K b xs (rv @ [nv], re @ [ne], rf @ [nf]) ?w1"
    using fp dk fresh y3 by (simp add: x bind_st_def bm_ops_defs fun_upd_idem)
  show ?case
    using Cons.IH [OF wf1 rest] by (simp add: step ys y y3)
qed

lemma dissolve_loop_Inl:
  assumes "heap_wf w" and "map_result (limited_dissolve_mesh K b) xs = Inl ex"
  shows "\<exists>w'. dissolve_loop K b xs acc w = (Inl ex, w') \<and> heap_wf w' \<and>
           dom (bm_heap w) \<subseteq> dom (bm_heap w') \<and> (\<exists>h. dom (bm_heap w') \<subseteq> insert h (dom (bm_heap w)))"
  using assms
proof (induction xs arbitrary: w acc)
  case Nil
  then show ?case by simp
next
  case (Cons x xs)
  obtain verts edges faces a where x: "x = (verts, edges, faces, a)" by (cases x)
  obtain rv re rf where acc: "acc = (rv, re, rf)" by (cases acc)
  let ?w1 = "w\<lparr>bm_next := Suc (bm_next w)\<rparr>"
  have fresh: "bm_heap w (bm_next w) = None" using Cons.prems(1) by (rule heap_wf_fresh)
  have wf1: "heap_wf ?w1" using Cons.prems(1) by (auto simp: heap_wf_def)
  show ?case
  proof (cases "from_pydata K verts edges faces")
    case (Inl e)
    with Cons.prems(2) x have "e = ex" by (simp add: limited_dissolve_mesh_def)
    with Inl Cons.prems(1) show ?thesis by (auto simp add: x acc bind_st_def bm_ops_defs)
  next
    case (Inr m)
    show ?thesis
    proof (cases "dissolve K a b m")
      case (Inl e)
      with Inr Cons.prems(2) x have "e = ex" by (simp add: limited_dissolve_mesh_def)
      moreover have "heap_wf (w\<lparr>bm_heap := (bm_heap w)(bm_next w \<mapsto> m), bm_next := Suc (bm_next w)\<rparr>)"
        using Cons.prems(1) by (auto simp: heap_wf_def)
      ultimately show ?thesis using Inl Inr
        by (auto simp add: x acc bind_st_def bm_ops_defs)
    next
      case (Inr m')
      obtain nv ne nf where y3: "to_pydata K m' = (nv, ne, nf)" by (cases "to_pydata K m'")
      have "limited_dissolve_mesh K b x = Inr (to_pydata K m')"
        using \<open>from_pydata K verts edges faces = Inr m\<close> Inr by (simp add: x limited_dissolve_mesh_def)
      with Cons.prems(2) have rest: "map_result (limited_dissolve_mesh K b) xs = Inl ex"
        by (simp add: bind_res_def split: sum.splits)
      have step: "dissolve_loop K b (x # xs) acc w =
          dissolve_loop K b xs (rv @ [nv], re @ [ne], rf @ [nf]) ?w1"
        using \<open>from_pydata K verts edges faces = Inr m\<close> Inr fresh y3
        by (simp add: x acc bind_st_def bm_ops_defs fun_upd_idem)
      from Cons.IH [OF wf1 rest] show ?thesis by (simp add: step)
    qed
  qed
qed

text \<open>
  When construction never raises, a failing loop leaves exactly one more live bmesh: the
  one whose dissolve raised. It was fresh before the run.
\<close>

lemma dissolve_loop_leak:
  assumes "heap_wf w" and "\<forall>v e f. \<exists>m. from_pydata K v e f = Inr m"
    and "map_result (limited_dissolve_mesh K b) xs = Inl ex"
  shows "\<exists>w' h. dissolve_loop K b xs acc w = (Inl ex, w') \<and> h \<notin> dom (bm_heap w) \<and>
           dom (bm_heap w') = insert h (dom (bm_heap w))"
  using assms(1,3)
proof (induction xs arbitrary: w acc)
  case Nil
  then show ?case by simp
next
  case (Cons x xs)
  obtain verts edges faces a where x: "x = (verts, edges, faces, a)" by (cases x)
  obtain rv re rf where acc: "acc = (rv, re, rf)" by (cases acc)
  obtain m where m: "from_pydata K verts edges faces = Inr m" using assms(2) by blast
  let ?w1 = "w\<lparr>bm_next := Suc (bm_next w)\<rparr>"
  have fresh: "bm_heap w (bm_next w) = None" using Cons.prems(1) by (rule heap_wf_fresh)
  have wf1: "heap_wf ?w1" using Cons.prems(1) by (auto simp: heap_wf_def)
  show ?case
  proof (cases "dissolve K a b m")
    case (Inl e)
    with m Cons.prems(2) x have "e = ex" by (simp add: limited_dissolve_mesh_def)
    with Inl m fresh show ?thesis
      by (auto simp add: x acc bind_st_def bm_ops_defs)
  next
    case (Inr m')
    obtain nv ne nf where y3: "to_pydata K m' = (nv, ne, nf)" by (cases "to_pydata K m'")
    have "limited_dissolve_mesh K b x = Inr (to_pydata K m')"
      using m Inr by (simp add: x limited_dissolve_mesh_def)
    with Cons.prems(2) have rest: "map_result (limited_dissolve_mesh K b) xs = Inl ex"
      by (simp add: bind_res_def split: sum.splits)
    have step: "dissolve_loop K b (x # xs) acc w =
        dissolve_loop K b xs (rv @ [nv], re @ [ne], rf @ [nf]) ?w1"
      using m Inr fresh y3 by (simp add: x acc bind_st_def bm_ops_defs fun_upd_idem)
    from Cons.IH [OF wf1 rest] show ?thesis by (simp add: step)
  qed
qed

section \<open>process implements its contract\<close>

lemma map_result_length:
  "map_result f xs = Inr ys \<Longrightarrow> length ys = length xs"
  by (induction xs arbitrary: ys) (auto simp: bind_res_def split: sum.splits)

lemma bind_st_on_world:
  "bind_st (on_world m) f s = (case m (sys_world s) of (Inl e, w') \<Rightarrow> (Inl e, s\<lparr>sys_world := w'\<rparr>)
      | (Inr x, w') \<Rightarrow> f x (s\<lparr>sys_world := w'\<rparr>))"
  by (simp add: bind_st_def on_world_def split: prod.splits sum.splits)

lemma process_spec_None_iff:
  "process_spec K n = Inr None \<longleftrightarrow> \<not> is_linked (out_verts n)"
  by (auto simp: process_spec_def bind_res_def split: sum.splits prod.splits)

text \<open>What a successful contract says about the inputs it read.\<close>

lemma process_spec_linked_Inr:
  assumes "process_spec K n = Inr (Some (rv, re, rf))"
  obtains verts edges faces a mv me mf ma ys where
    "is_linked (out_verts n)"
    "sv_get (in_verts n) None = Inr verts" "sv_get (in_edges n) (Some [[]]) = Inr edges"
    "sv_get (in_polys n) (Some [[]]) = Inr faces" "retrieve_angle n = Inr a"
    "match_long_repeat4 verts edges faces [a] = (mv, me, mf, ma)"
    "map_result (limited_dissolve_mesh K (use_dissolve_boundaries n)) (zip4 mv me mf ma) = Inr ys"
    "unzip3 ys = (rv, re, rf)"
  using assms
  by (auto simp: process_spec_def bind_res_def split: if_splits sum.splits prod.splits)

text \<open>
  A successful contract: \<open>process\<close> stores its collections, allocates one handle per
  batch and frees each, so only the allocation counter moves, by the batch count.
\<close>

lemma process_ok_exact:
  assumes wf: "heap_wf (sys_world s)"
    and spec: "process_spec K (sys_node s) = Inr (Some (rv, re, rf))"
  shows "process K s = (Inr (), s\<lparr>sys_node := set_outputs rv re rf (sys_node s),
                                 sys_world := (sys_world s)\<lparr>bm_next := bm_next (sys_world s) + length rv\<rparr>\<rparr>)
         \<and> length re = length rv \<and> length rf = length rv"
proof -
  obtain verts edges faces a mv me mf ma ys where
    linked: "is_linked (out_verts (sys_node s))" and
    g: "sv_get (in_verts (sys_node s)) None = Inr verts" "sv_get (in_edges (sys_node s)) (Some [[]]) = Inr edges"
       "sv_get (in_polys (sys_node s)) (Some [[]]) = Inr faces" "retrieve_angle (sys_node s) = Inr a" and
    m4: "match_long_repeat4 verts edges faces [a] = (mv, me, mf, ma)" and
    mr: "map_result (limited_dissolve_mesh K (use_dissolve_boundaries (sys_node s))) (zip4 mv me mf ma) = Inr ys" and
    out: "unzip3 ys = (rv, re, rf)"
    using spec by (rule process_spec_linked_Inr)
  note loop = dissolve_loop_Inr [OF wf mr, of "[]" "[]" "[]"]
  from out have lens: "length rv = length ys" "length re = length ys" "length rf = length ys"
    by (auto simp: unzip3_def)
  have "length rv = length (zip4 mv me mf ma)" using lens map_result_length [OF mr] by simp
  with linked g m4 loop out lens show ?thesis
    by (simp add: process_def process_linked_def bind_st_on_world unzip3_def)
qed

lemma process_ok:
  assumes wf: "heap_wf (sys_world s)"
    and spec: "process_spec K (sys_node s) = Inr (Some (rv, re, rf))"
  shows "\<exists>k. process K s = (Inr (), s\<lparr>sys_node := set_outputs rv re rf (sys_node s),
                                      sys_world := (sys_world s)\<lparr>bm_next := bm_next (sys_world s) + k\<rparr>\<rparr>)"
  using process_ok_exact [OF wf spec] by blast

text \<open>With a kernel that never raises, every batch succeeds.\<close>

lemma map_result_total:
  "(\<And>x. x \<in> set xs \<Longrightarrow> \<exists>y. f x = Inr y) \<Longrightarrow> \<exists>ys. map_result f xs = Inr ys"
proof (induction xs)
  case (Cons x xs)
  then obtain y ys where "f x = Inr y" "map_result f xs = Inr ys" by force
  then show ?case by simp
qed simp

lemma limited_dissolve_mesh_total:
  assumes "kernel_total K"
  shows "\<exists>y. limited_dissolve_mesh K b x = Inr y"
proof -
  obtain v e f a where x: "x = (v, e, f, a)" by (cases x)
  obtain m where m: "from_pydata K v e f = Inr m" using assms unfolding kernel_total_def by blast
  obtain m' where m': "dissolve K a b m = Inr m'" using assms unfolding kernel_total_def by blast
  show ?thesis by (rule exI [of _ "to_pydata K m'"]) (simp add: x m m' limited_dissolve_mesh_def)
qed

text \<open>With a kernel that never raises and the inputs read, the contract yields outputs.\<close>

lemma process_spec_total:
  assumes "kernel_total K" and "is_linked (out_verts n)"
    and "sv_get (in_verts n) None = Inr vs" and "sv_get (in_edges n) (Some [[]]) = Inr es"
    and "sv_get (in_polys n) (Some [[]]) = Inr fs" and "retrieve_angle n = Inr a"
  shows "\<exists>rv re rf. process_spec K n = Inr (Some (rv, re, rf))"
proof -
  obtain mv me mf ma where m4: "match_long_repeat4 vs es fs [a] = (mv, me, mf, ma)"
    by (cases "match_long_repeat4 vs es fs [a]") auto
  obtain ys where mr: "map_result (limited_dissolve_mesh K (use_dissolve_boundaries n)) (zip4 mv me mf ma) = Inr ys"
    using map_result_total [of "zip4 mv me mf ma" "limited_dissolve_mesh K (use_dissolve_boundaries n)"]
      limited_dissolve_mesh_total [OF assms(1)] by blast
  obtain rv re rf where u: "unzip3 ys = (rv, re, rf)" by (cases "unzip3 ys") auto
  have "process_spec K n = Inr (Some (rv, re, rf))"
    using assms(2-6) m4 mr u by (simp add: process_spec_def)
  then show ?thesis by blast
qed

lemma process_err:
  assumes wf: "heap_wf (sys_world s)"
    and spec: "process_spec K (sys_node s) = Inl ex"
  shows "\<exists>w'. process K s = (Inl ex, s\<lparr>sys_world := w'\<rparr>) \<and> heap_wf w' \<and>
           dom (bm_heap (sys_world s)) \<subseteq> dom (bm_heap w') \<and>
           (\<exists>h. dom (bm_heap w') \<subseteq> insert h (dom (bm_heap (sys_world s))))"
proof -
  let ?n = "sys_node s"
  have linked: "is_linked (out_verts ?n)"
    using spec by (rule contrapos_pp) (simp add: process_spec_def)
  show ?thesis
  proof (cases "bind_res (sv_get (in_verts ?n) None) (\<lambda>verts.
        bind_res (sv_get (in_edges ?n) (Some [[]])) (\<lambda>edges.
        bind_res (sv_get (in_polys ?n) (Some [[]])) (\<lambda>faces.
        bind_res (retrieve_angle ?n) (\<lambda>a. Inr (verts, edges, faces, a)))))")
    case (Inl e)
    with spec linked have "e = ex"
      by (auto simp: process_spec_def bind_res_def split: sum.splits)
    with Inl linked have "process K s = (Inl ex, s\<lparr>sys_world := sys_world s\<rparr>)"
      by (auto simp: process_def process_linked_def bind_res_def bind_st_def split: sum.splits)
    with wf show ?thesis by blast
  next
    case (Inr q)
    then obtain verts edges faces a where
      g: "sv_get (in_verts ?n) None = Inr verts" "sv_get (in_edges ?n) (Some [[]]) = Inr edges"
         "sv_get (in_polys ?n) (Some [[]]) = Inr faces" "retrieve_angle ?n = Inr a"
      by (auto simp: bind_res_def split: sum.splits)
    obtain mv me mf ma where m4: "match_long_repeat4 verts edges faces [a] = (mv, me, mf, ma)"
      by (cases "match_long_repeat4 verts edges faces [a]") auto
    from spec linked g m4 have mr:
      "map_result (limited_dissolve_mesh K (use_dissolve_boundaries ?n)) (zip4 mv me mf ma) = Inl ex"
      by (simp add: process_spec_def bind_res_def split: sum.splits)
    from dissolve_loop_Inl [OF wf mr, of "([], [], [])"] obtain w' where
      loop: "dissolve_loop K (use_dissolve_boundaries ?n) (zip4 mv me mf ma) ([], [], []) (sys_world s) = (Inl ex, w')"
        and rest: "heap_wf w'" "dom (bm_heap (sys_world s)) \<subseteq> dom (bm_heap w')"
          "\<exists>h. dom (bm_heap w') \<subseteq> insert h (dom (bm_heap (sys_world s)))"
      by blast
    have "process K s = (Inl ex, s\<lparr>sys_world := w'\<rparr>)"
      using linked g m4 loop by (simp add: process_def process_linked_def bind_st_on_world)
    with rest show ?thesis by blast
  qed
qed

text \<open>Every run keeps the store invariant and changes the node at most by setting its outputs.\<close>

lemma process_preserves:
  assumes wf: "heap_wf (sys_world s)" and run: "process K s = (r, s')"
  shows "heap_wf (sys_world s') \<and>
         (sys_node s' = sys_node s \<or> (\<exists>a b c. sys_node s' = set_outputs a b c (sys_node s)))"
proof (cases "process_spec K (sys_node s)")
  case (Inl ex)
  from process_err [OF wf Inl] run show ?thesis by auto
next
  case (Inr r0)
  show ?thesis
  proof (cases r0)
    case None
    with Inr have "s' = s" using run
      by (simp add: process_spec_None_iff process_def)
    with wf show ?thesis by simp
  next
    case (Some outs)
    obtain rv re rf where "outs = (rv, re, rf)" by (cases outs)
    with process_ok [OF wf] Inr Some obtain k where
      "process K s = (Inr (), s\<lparr>sys_node := set_outputs rv re rf (sys_node s),
          sys_world := (sys_world s)\<lparr>bm_next := bm_next (sys_world s) + k\<rparr>\<rparr>)" by blast
    with run have s': "s' = s\<lparr>sys_node := set_outputs rv re rf (sys_node s),
          sys_world := (sys_world s)\<lparr>bm_next := bm_next (sys_world s) + k\<rparr>\<rparr>" by simp
    have "heap_wf (sys_world s')"
      using wf by (auto simp: heap_wf_def s' subset_iff)
    then show ?thesis by (auto simp: s')
  qed
qed

text \<open>Facts about setting the outputs, and the three outcomes of the contract.\<close>

lemma set_outputs_idem [simp]:
  "set_outputs a b c (set_outputs a' b' c' n) = set_outputs a b c n"
  by (simp add: set_outputs_def sv_set_def)

lemma set_outputs_fields [simp]:
  "angle (set_outputs a b c n) = angle n"
  "use_dissolve_boundaries (set_outputs a b c n) = use_dissolve_boundaries n"
  "in_verts (set_outputs a b c n) = in_verts n" "in_edges (set_outputs a b c n) = in_edges n"
  "in_polys (set_outputs a b c n) = in_polys n" "in_angle (set_outputs a b c n) = in_angle n"
  "is_linked (out_verts (set_outputs a b c n)) = is_linked (out_verts n)"
  "sv_cache (out_verts (set_outputs a b c n)) = Some a"
  by (simp_all add: set_outputs_def)

lemma retrieve_angle_set_outputs [simp]:
  "retrieve_angle (set_outputs a b c n) = retrieve_angle n"
  unfolding retrieve_angle_def set_outputs_fields(1,6) ..

lemma process_spec_set_outputs [simp]:
  "process_spec K (set_outputs a b c n) = process_spec K n"
  by (simp add: process_spec_def)

lemma process_spec_cases:
  obtains (err) ex where "process_spec K n = Inl ex"
  | (noop) "process_spec K n = Inr None"
  | (ok) rv re rf where "process_spec K n = Inr (Some (rv, re, rf))"
  by (metis old.sum.exhaust option.exhaust prod_cases3)

text \<open>
  The invariant of the node in its host, by rule induction over its lifecycle: a run
  changes no property of the node, and keeps the store well formed.
\<close>

lemma process_angle:
  "process K s = (r, s') \<Longrightarrow> angle (sys_node s') = angle (sys_node s)"
  by (auto simp: process_def process_linked_def bind_st_def on_world_def
           split: prod.splits sum.splits if_splits)

lemma reachable_angle_nonneg: "reachable K s \<Longrightarrow> 0 \<le> angle (sys_node s)"
proof (induction rule: reachable.induct)
  case (evaluate s r s')
  then show ?case by (simp add: process_angle)
qed (simp_all add: sv_init_def set_angle_def set_use_dissolve_boundaries_def)

lemma reachable_heap_wf: "reachable K s \<Longrightarrow> heap_wf (sys_world s)"
proof (induction rule: reachable.induct)
  case init
  then show ?case by (simp add: bm_world_init_def heap_wf_def)
next
  case (evaluate s r s')
  from process_preserves [OF evaluate.IH evaluate.hyps(2)] show ?case by blast
qed (simp_all add: set_angle_def set_use_dissolve_boundaries_def)

lemmas example_defs = example_sys_def example_node_def sv_init_def linked_socket_def
  new_socket_def bm_world_init_def identity_kernel_def failing_kernel_def

lemmas process_eval = process_def process_linked_def process_spec_def retrieve_angle_def
  match_long_repeat4_def match_to_def zip4_def bind_st_on_world limited_dissolve_mesh_def
  bm_ops_defs unzip3_def set_outputs_def sv_set_def on_world_def

section \<open>Properties of the node\<close>

text \<open>
  C1. Refinement: when the contract yields output collections, \<open>process\<close> returns
  normally, stores exactly those collections in the three outputs, changes nothing else
  of the node, and leaves no bmesh live (every handle it allocated was freed).
\<close>

theorem process_refines_spec:
  assumes "heap_wf (sys_world s)"
    and "process_spec K (sys_node s) = Inr (Some (rv, re, rf))"
  shows "\<exists>w'. process K s = (Inr (), s\<lparr>sys_node := set_outputs rv re rf (sys_node s), sys_world := w'\<rparr>)
           \<and> bm_heap w' = bm_heap (sys_world s)"
  using process_ok [OF assms] by fastforce

theorem process_refines_spec_witness:
  "heap_wf (sys_world example_sys) \<and>
   process_spec identity_kernel (sys_node example_sys) =
     Inr (Some ([[(0, 0, 0), (1, 0, 0), (1, 1, 0)]], [[]], [[[0, 1, 2]]])) \<and>
   (\<exists>w'. process identity_kernel example_sys =
          (Inr (), example_sys\<lparr>sys_node := set_outputs [[(0, 0, 0), (1, 0, 0), (1, 1, 0)]] [[]] [[[0, 1, 2]]]
                                    (sys_node example_sys), sys_world := w'\<rparr>)
        \<and> bm_heap w' = bm_heap (sys_world example_sys))"
proof -
  have h1: "heap_wf (sys_world example_sys)" by (simp add: example_defs heap_wf_def)
  have h2: "process_spec identity_kernel (sys_node example_sys) =
      Inr (Some ([[(0, 0, 0), (1, 0, 0), (1, 1, 0)]], [[]], [[[0, 1, 2]]]))"
    by (simp add: example_defs process_eval)
  show ?thesis using process_refines_spec [OF h1 h2] h1 h2 by blast
qed

text \<open>
  C2. Outcome: \<open>process\<close> returns normally exactly when the contract does, and
  raises exactly the exception the contract names.
\<close>

theorem process_outcome_spec:
  assumes "heap_wf (sys_world s)"
  shows "fst (process K s) = map_sum id (\<lambda>_. ()) (process_spec K (sys_node s))"
proof (cases rule: process_spec_cases [of K "sys_node s"])
  case (err ex)
  with process_err [OF assms err] show ?thesis by auto
next
  case noop
  then have "\<not> is_linked (out_verts (sys_node s))" by (simp add: process_spec_None_iff)
  with noop show ?thesis by (simp add: process_def)
next
  case (ok rv re rf)
  with process_ok [OF assms ok] show ?thesis by auto
qed

theorem process_outcome_spec_witness:
  "heap_wf (sys_world example_sys) \<and>
   fst (process failing_kernel example_sys) = map_sum id (\<lambda>_. ()) (process_spec failing_kernel (sys_node example_sys))"
proof -
  have h: "heap_wf (sys_world example_sys)" by (simp add: example_defs heap_wf_def)
  show ?thesis using process_outcome_spec [OF h] h by blast
qed

text \<open>
  C3. Output count (the spec's first testable property): after a normal return with the
  Verts output linked, the Verts output holds one batch per aligned tuple: none if
  the vertex, edge or face collection read is empty, otherwise as many as the longest
  of them.
\<close>

theorem process_output_count:
  assumes wf: "heap_wf (sys_world s)" and run: "process K s = (Inr (), s')"
    and linked: "is_linked (out_verts (sys_node s))"
    and gv: "sv_get (in_verts (sys_node s)) None = Inr vs"
    and ge: "sv_get (in_edges (sys_node s)) (Some [[]]) = Inr es"
    and gf: "sv_get (in_polys (sys_node s)) (Some [[]]) = Inr fs"
  shows "\<exists>rv. sv_cache (out_verts (sys_node s')) = Some rv \<and>
           length rv = (if vs = [] \<or> es = [] \<or> fs = [] then 0
                        else max (length vs) (max (length es) (length fs)))"
proof (cases rule: process_spec_cases [of K "sys_node s"])
  case (err ex)
  with process_err [OF wf err] run show ?thesis by auto
next
  case noop
  with linked show ?thesis by (simp add: process_spec_None_iff)
next
  case (ok rv re rf)
  then obtain verts edges faces a mv me mf ma ys where
    g: "sv_get (in_verts (sys_node s)) None = Inr verts" "sv_get (in_edges (sys_node s)) (Some [[]]) = Inr edges"
       "sv_get (in_polys (sys_node s)) (Some [[]]) = Inr faces" and
    m4: "match_long_repeat4 verts edges faces [a] = (mv, me, mf, ma)" and
    mr: "map_result (limited_dissolve_mesh K (use_dissolve_boundaries (sys_node s))) (zip4 mv me mf ma) = Inr ys" and
    out: "unzip3 ys = (rv, re, rf)"
    by (rule process_spec_linked_Inr)
  from g gv ge gf have "verts = vs" "edges = es" "faces = fs" by simp_all
  with m4 have len: "length (zip4 mv me mf ma) =
      (if vs = [] \<or> es = [] \<or> fs = [] then 0 else max (length vs) (max (length es) (length fs)))"
    by (simp add: length_zip4_match_long_repeat4)
  from out have "rv = map fst ys" by (simp add: unzip3_def)
  with map_result_length [OF mr] len have "length rv = (if vs = [] \<or> es = [] \<or> fs = [] then 0
      else max (length vs) (max (length es) (length fs)))" by simp
  moreover from process_ok [OF wf ok] run have "sv_cache (out_verts (sys_node s')) = Some rv"
    by auto
  ultimately show ?thesis by blast
qed

theorem process_output_count_witness:
  "heap_wf (sys_world example_sys) \<and>
   process identity_kernel example_sys = (Inr (), snd (process identity_kernel example_sys)) \<and>
   is_linked (out_verts (sys_node example_sys)) \<and>
   sv_get (in_verts (sys_node example_sys)) None = Inr [[(0, 0, 0), (1, 0, 0), (1, 1, 0)]] \<and>
   sv_get (in_edges (sys_node example_sys)) (Some [[]]) = Inr [[]] \<and>
   sv_get (in_polys (sys_node example_sys)) (Some [[]]) = Inr [[[0, 1, 2]]] \<and>
   (\<exists>rv. sv_cache (out_verts (sys_node (snd (process identity_kernel example_sys)))) = Some rv \<and>
         length rv = 1)"
proof -
  have h1: "heap_wf (sys_world example_sys)" by (simp add: example_defs heap_wf_def)
  have h2: "process identity_kernel example_sys = (Inr (), snd (process identity_kernel example_sys))"
    by (simp add: example_defs process_eval bind_st_def)
  have h3: "is_linked (out_verts (sys_node example_sys))" by (simp add: example_defs)
  have h4: "sv_get (in_verts (sys_node example_sys)) None = Inr [[(0, 0, 0), (1, 0, 0), (1, 1, 0)]]"
    by (simp add: example_defs)
  have h5: "sv_get (in_edges (sys_node example_sys)) (Some [[]]) = Inr [[]]"
    by (simp add: example_defs)
  have h6: "sv_get (in_polys (sys_node example_sys)) (Some [[]]) = Inr [[[0, 1, 2]]]"
    by (simp add: example_defs)
  show ?thesis using process_output_count [OF h1 h2 h3 h4 h5 h6] h1 h2 h3 h4 h5 h6 by simp
qed

text \<open>
  C4. Angle fallback (the spec's fourth testable property): when the linked Angle input
  starts with a value that \<open>float()\<close> rejects, the node's result is the one it has
  with no Angle input at all, that is, with the stored \<open>angle\<close> property.
\<close>

theorem process_angle_fallback:
  assumes "in_angle n = Some sk" and "is_linked sk" and "sv_cache sk = Some angle_values"
    and "py_getitem0 angle_values = Inr v0" and "\<not> py_is_list_or_tuple v0" and "py_float v0 = Inl e"
  shows "process_spec K n = process_spec K (n\<lparr>in_angle := None\<rparr>)"
proof -
  have "retrieve_angle n = retrieve_angle (n\<lparr>in_angle := None\<rparr>)"
    using assms by (simp add: retrieve_angle_def)
  then show ?thesis by (simp add: process_spec_def)
qed

theorem process_angle_fallback_witness:
  "in_angle (example_node\<lparr>in_angle := Some (linked_socket (PList [PStr ''abc'']))\<rparr>) =
     Some (linked_socket (PList [PStr ''abc''])) \<and>
   is_linked (linked_socket (PList [PStr ''abc''])) \<and>
   sv_cache (linked_socket (PList [PStr ''abc''])) = Some (PList [PStr ''abc'']) \<and>
   py_getitem0 (PList [PStr ''abc'']) = Inr (PStr ''abc'') \<and>
   \<not> py_is_list_or_tuple (PStr ''abc'') \<and> py_float (PStr ''abc'') = Inl ValueError \<and>
   process_spec identity_kernel (example_node\<lparr>in_angle := Some (linked_socket (PList [PStr ''abc'']))\<rparr>) =
   process_spec identity_kernel (example_node\<lparr>in_angle := Some (linked_socket (PList [PStr ''abc'']))\<rparr>
                                     \<lparr>in_angle := None\<rparr>)"
proof -
  have h1: "in_angle (example_node\<lparr>in_angle := Some (linked_socket (PList [PStr ''abc'']))\<rparr>) =
      Some (linked_socket (PList [PStr ''abc'']))" by simp
  have h2: "is_linked (linked_socket (PList [PStr ''abc'']))" by (simp add: linked_socket_def)
  have h3: "sv_cache (linked_socket (PList [PStr ''abc''])) = Some (PList [PStr ''abc''])"
    by (simp add: linked_socket_def)
  have h4: "py_getitem0 (PList [PStr ''abc'']) = Inr (PStr ''abc'')" by simp
  have h5: "\<not> py_is_list_or_tuple (PStr ''abc'')" by simp
  have h6: "py_float (PStr ''abc'') = Inl ValueError"
    by (simp add: parse_float_str_def strip_spaces_def is_py_space_def take_sign_def py_is_digit_def)
  show ?thesis using process_angle_fallback [OF h1 h2 h3 h4 h5 h6, of identity_kernel] h1 h2 h3 h4 h5 h6
    by blast
qed

text \<open>
  C5. No partial output: when the contract raises, \<open>process\<close> raises the same
  exception and leaves the node (its outputs included) as it was; at most one bmesh
  handle is left live.
\<close>

theorem process_error_keeps_outputs:
  assumes "heap_wf (sys_world s)" and "process_spec K (sys_node s) = Inl ex"
  shows "fst (process K s) = Inl ex \<and> sys_node (snd (process K s)) = sys_node s \<and>
         (\<exists>h. dom (bm_heap (sys_world (snd (process K s)))) \<subseteq> insert h (dom (bm_heap (sys_world s))))"
proof -
  from process_err [OF assms] obtain w' h where
    run: "process K s = (Inl ex, s\<lparr>sys_world := w'\<rparr>)" and
    leak: "dom (bm_heap w') \<subseteq> insert h (dom (bm_heap (sys_world s)))"
    by blast
  from run leak show ?thesis by auto
qed

theorem process_error_keeps_outputs_witness:
  "heap_wf (sys_world example_sys) \<and> process_spec failing_kernel (sys_node example_sys) = Inl RuntimeError \<and>
   fst (process failing_kernel example_sys) = Inl RuntimeError \<and>
   sys_node (snd (process failing_kernel example_sys)) = sys_node example_sys"
proof -
  have h1: "heap_wf (sys_world example_sys)" by (simp add: example_defs heap_wf_def)
  have h2: "process_spec failing_kernel (sys_node example_sys) = Inl RuntimeError"
    by (simp add: example_defs process_eval)
  show ?thesis using process_error_keeps_outputs [OF h1 h2] h1 h2 by blast
qed

text \<open>
  C6. The bmesh is not released on a failing dissolve: \<open>bm.free()\<close> is not in a
  \<open>finally\<close> block. For every kernel whose construction never raises, and every node whose
  inputs are read, a run that raises (the contract's exception, hence a dissolve's)
  leaves exactly one more live bmesh than before: a handle that was not live before the
  run.
\<close>

theorem process_leaks_handle_on_dissolve_error:
  assumes wf: "heap_wf (sys_world s)" and fp: "\<forall>v e f. \<exists>m. from_pydata K v e f = Inr m"
    and linked: "is_linked (out_verts (sys_node s))"
    and gv: "sv_get (in_verts (sys_node s)) None = Inr vs"
    and ge: "sv_get (in_edges (sys_node s)) (Some [[]]) = Inr es"
    and gf: "sv_get (in_polys (sys_node s)) (Some [[]]) = Inr fs"
    and ga: "retrieve_angle (sys_node s) = Inr a"
    and spec: "process_spec K (sys_node s) = Inl ex"
  shows "\<exists>h s'. process K s = (Inl ex, s') \<and> h \<notin> dom (bm_heap (sys_world s)) \<and>
           dom (bm_heap (sys_world s')) = insert h (dom (bm_heap (sys_world s)))"
proof -
  obtain mv me mf ma where m4: "match_long_repeat4 vs es fs [a] = (mv, me, mf, ma)"
    by (cases "match_long_repeat4 vs es fs [a]") auto
  have mr: "map_result (limited_dissolve_mesh K (use_dissolve_boundaries (sys_node s))) (zip4 mv me mf ma) = Inl ex"
    using spec linked gv ge gf ga m4 by (simp add: process_spec_def bind_res_def split: sum.splits)
  from dissolve_loop_leak [OF wf fp mr, of "([], [], [])"] obtain w' h where
    loop: "dissolve_loop K (use_dissolve_boundaries (sys_node s)) (zip4 mv me mf ma) ([], [], []) (sys_world s) = (Inl ex, w')"
    and leak: "h \<notin> dom (bm_heap (sys_world s))" "dom (bm_heap w') = insert h (dom (bm_heap (sys_world s)))"
    by blast
  have "process K s = (Inl ex, s\<lparr>sys_world := w'\<rparr>)"
    using linked gv ge gf ga m4 loop by (simp add: process_def process_linked_def bind_st_on_world)
  with leak show ?thesis by auto
qed

theorem process_leaks_handle_on_dissolve_error_witness:
  "heap_wf (sys_world example_sys) \<and> (\<forall>v e f. \<exists>m. from_pydata failing_kernel v e f = Inr m) \<and>
   is_linked (out_verts (sys_node example_sys)) \<and>
   sv_get (in_verts (sys_node example_sys)) None = Inr [[(0, 0, 0), (1, 0, 0), (1, 1, 0)]] \<and>
   sv_get (in_edges (sys_node example_sys)) (Some [[]]) = Inr [[]] \<and>
   sv_get (in_polys (sys_node example_sys)) (Some [[]]) = Inr [[[0, 1, 2]]] \<and>
   retrieve_angle (sys_node example_sys) = Inr 5 \<and>
   process_spec failing_kernel (sys_node example_sys) = Inl RuntimeError \<and>
   (\<exists>h s'. process failing_kernel example_sys = (Inl RuntimeError, s') \<and>
      h \<notin> dom (bm_heap (sys_world example_sys)) \<and>
      dom (bm_heap (sys_world s')) = insert h (dom (bm_heap (sys_world example_sys))))"
proof -
  have h1: "heap_wf (sys_world example_sys)" by (simp add: example_defs heap_wf_def)
  have h2: "\<forall>v e f. \<exists>m. from_pydata failing_kernel v e f = Inr m" by (simp add: failing_kernel_def)
  have h3: "is_linked (out_verts (sys_node example_sys))" by (simp add: example_defs)
  have h4: "sv_get (in_verts (sys_node example_sys)) None = Inr [[(0, 0, 0), (1, 0, 0), (1, 1, 0)]]"
    by (simp add: example_defs)
  have h5: "sv_get (in_edges (sys_node example_sys)) (Some [[]]) = Inr [[]]" by (simp add: example_defs)
  have h6: "sv_get (in_polys (sys_node example_sys)) (Some [[]]) = Inr [[[0, 1, 2]]]" by (simp add: example_defs)
  have h7: "retrieve_angle (sys_node example_sys) = Inr 5" by (simp add: example_defs retrieve_angle_def)
  have h8: "process_spec failing_kernel (sys_node example_sys) = Inl RuntimeError"
    by (simp add: example_defs process_eval)
  show ?thesis
    using process_leaks_handle_on_dissolve_error [OF h1 h2 h3 h4 h5 h6 h7 h8] h1 h2 h3 h4 h5 h6 h7 h8 by blast
qed

text \<open>
  C7. An empty list on the linked Angle input is not a coercion failure that falls back:
  \<open>angle_values[0]\<close> is outside the \<open>try\<close> blocks, so \<open>process\<close> raises
  IndexError and changes nothing.
\<close>

theorem process_empty_angle_raises:
  assumes "is_linked (out_verts (sys_node s))"
    and "sv_get (in_verts (sys_node s)) None = Inr vs"
    and "sv_get (in_edges (sys_node s)) (Some [[]]) = Inr es"
    and "sv_get (in_polys (sys_node s)) (Some [[]]) = Inr fs"
    and "in_angle (sys_node s) = Some sk" and "is_linked sk" and "sv_cache sk = Some (PList [])"
  shows "process K s = (Inl IndexError, s)"
  using assms by (simp add: process_def process_linked_def retrieve_angle_def)

theorem process_empty_angle_raises_witness:
  "is_linked (out_verts example_node) \<and>
   sv_get (in_verts example_node) None = Inr [[(0, 0, 0), (1, 0, 0), (1, 1, 0)]] \<and>
   sv_get (in_edges example_node) (Some [[]]) = Inr [[]] \<and>
   sv_get (in_polys example_node) (Some [[]]) = Inr [[[0, 1, 2]]] \<and>
   process identity_kernel (example_sys\<lparr>sys_node := example_node\<lparr>in_angle := Some (linked_socket (PList []))\<rparr>\<rparr>) =
     (Inl IndexError, example_sys\<lparr>sys_node := example_node\<lparr>in_angle := Some (linked_socket (PList []))\<rparr>\<rparr>)"
proof -
  let ?s = "example_sys\<lparr>sys_node := example_node\<lparr>in_angle := Some (linked_socket (PList []))\<rparr>\<rparr>"
  have h1: "is_linked (out_verts (sys_node ?s))" by (simp add: example_defs)
  have h2: "sv_get (in_verts (sys_node ?s)) None = Inr [[(0, 0, 0), (1, 0, 0), (1, 1, 0)]]"
    by (simp add: example_defs)
  have h3: "sv_get (in_edges (sys_node ?s)) (Some [[]]) = Inr [[]]" by (simp add: example_defs)
  have h4: "sv_get (in_polys (sys_node ?s)) (Some [[]]) = Inr [[[0, 1, 2]]]" by (simp add: example_defs)
  have h5: "in_angle (sys_node ?s) = Some (linked_socket (PList []))" by simp
  have h6: "is_linked (linked_socket (PList []))" by (simp add: linked_socket_def)
  have h7: "sv_cache (linked_socket (PList [])) = Some (PList [])" by (simp add: linked_socket_def)
  have "process identity_kernel ?s = (Inl IndexError, ?s)"
    by (rule process_empty_angle_raises [OF h1 h2 h3 h4 h5 h6 h7])
  with h1 h2 h3 h4 show ?thesis by simp
qed

text \<open>
  C8. Invariant of every reachable state: the stored angle is not negative (the UI clamps
  it at the property's minimum 0.0) and the bmesh store is well formed.
\<close>

theorem reachable_invariant:
  "reachable K s \<Longrightarrow> 0 \<le> angle (sys_node s) \<and> heap_wf (sys_world s)"
  by (simp add: reachable_angle_nonneg reachable_heap_wf)

theorem reachable_invariant_witness:
  "reachable identity_kernel example_sys \<and> 0 \<le> angle (sys_node example_sys) \<and> heap_wf (sys_world example_sys)"
proof -
  have r: "reachable identity_kernel (\<lparr>sys_node = sv_init, sys_world = bm_world_init\<rparr>\<lparr>sys_node := example_node\<rparr>)"
    by (rule reachable.relink [OF reachable.init]) (simp_all add: example_node_def)
  then have h: "reachable identity_kernel example_sys" by (simp add: example_sys_def)
  show ?thesis using reachable_invariant [OF h] h by blast
qed

text \<open>
  C10. Re-evaluation: running \<open>process\<close> again on the state a normal run produced
  returns normally with the same outputs and the same live bmeshes.
\<close>

theorem process_idempotent:
  assumes wf: "heap_wf (sys_world s)" and run1: "process K s = (Inr (), s1)"
  shows "\<exists>s2. process K s1 = (Inr (), s2) \<and> sys_node s2 = sys_node s1 \<and>
              bm_heap (sys_world s2) = bm_heap (sys_world s1)"
proof (cases rule: process_spec_cases [of K "sys_node s"])
  case (err ex)
  with process_err [OF wf err] run1 show ?thesis by auto
next
  case noop
  then have "s1 = s" using run1 by (simp add: process_spec_None_iff process_def)
  with noop show ?thesis by (simp add: process_spec_None_iff process_def)
next
  case (ok rv re rf)
  with process_ok [OF wf ok] run1 obtain k where
    s1: "s1 = s\<lparr>sys_node := set_outputs rv re rf (sys_node s),
                sys_world := (sys_world s)\<lparr>bm_next := bm_next (sys_world s) + k\<rparr>\<rparr>" by auto
  have wf1: "heap_wf (sys_world s1)" using wf by (auto simp: heap_wf_def s1 subset_iff)
  have ok1: "process_spec K (sys_node s1) = Inr (Some (rv, re, rf))" using ok by (simp add: s1)
  from process_ok [OF wf1 ok1] obtain k' where
    "process K s1 = (Inr (), s1\<lparr>sys_node := set_outputs rv re rf (sys_node s1),
        sys_world := (sys_world s1)\<lparr>bm_next := bm_next (sys_world s1) + k'\<rparr>\<rparr>)" by blast
  then show ?thesis by (simp add: s1)
qed

theorem process_idempotent_witness:
  "heap_wf (sys_world example_sys) \<and>
   process identity_kernel example_sys = (Inr (), snd (process identity_kernel example_sys)) \<and>
   (\<exists>s2. process identity_kernel (snd (process identity_kernel example_sys)) = (Inr (), s2) \<and>
         sys_node s2 = sys_node (snd (process identity_kernel example_sys)))"
proof -
  have h1: "heap_wf (sys_world example_sys)" by (simp add: example_defs heap_wf_def)
  have h2: "process identity_kernel example_sys = (Inr (), snd (process identity_kernel example_sys))"
    by (simp add: example_defs process_eval bind_st_def)
  show ?thesis using process_idempotent [OF h1 h2] h1 h2 by blast
qed

text \<open>
  C14. The angle retrieval raises exactly when the Angle input is linked and either
  carries no data (SvNoDataError) or its data cannot be indexed with \<open>[0]\<close> (the
  error of \<open>angle_values[0]\<close>); every error of \<open>float()\<close> and of the inner
  \<open>[0]\<close> is caught.
\<close>

theorem retrieve_angle_errors:
  "retrieve_angle n = Inl e \<longleftrightarrow>
     (\<exists>sk. in_angle n = Some sk \<and> is_linked sk \<and>
           (case sv_cache sk of None \<Rightarrow> e = SvNoDataError | Some v \<Rightarrow> py_getitem0 v = Inl e))"
  by (auto simp: retrieve_angle_def bind_res_def split: option.splits sum.splits if_splits)

text \<open>
  C15. A number sent as text is read back: when the first element on the linked Angle
  input is the string Python prints for an integer \<open>k\<close> (\<open>str(k)\<close>), the node
  dissolves with the angle \<open>k\<close>.
\<close>

theorem retrieve_angle_int_string:
  assumes "in_angle n = Some sk" and "is_linked sk" and "sv_cache sk = Some angle_values"
    and "py_getitem0 angle_values = Inr (PStr (py_str_int k))"
  shows "retrieve_angle n = Inr (of_int k)"
  using assms by (simp add: retrieve_angle_def parse_float_str_py_str_int)

theorem retrieve_angle_int_string_witness:
  "in_angle (example_node\<lparr>in_angle := Some (linked_socket (PList [PStr (py_str_int (-12))]))\<rparr>) =
     Some (linked_socket (PList [PStr (py_str_int (-12))])) \<and>
   is_linked (linked_socket (PList [PStr (py_str_int (-12))])) \<and>
   sv_cache (linked_socket (PList [PStr (py_str_int (-12))])) = Some (PList [PStr (py_str_int (-12))]) \<and>
   py_getitem0 (PList [PStr (py_str_int (-12))]) = Inr (PStr (py_str_int (-12))) \<and>
   py_str_int (-12) = ''-12'' \<and>
   retrieve_angle (example_node\<lparr>in_angle := Some (linked_socket (PList [PStr (py_str_int (-12))]))\<rparr>) = Inr (-12)"
proof -
  have h: "in_angle (example_node\<lparr>in_angle := Some (linked_socket (PList [PStr (py_str_int (-12))]))\<rparr>) =
     Some (linked_socket (PList [PStr (py_str_int (-12))]))"
    "is_linked (linked_socket (PList [PStr (py_str_int (-12))]))"
    "sv_cache (linked_socket (PList [PStr (py_str_int (-12))])) = Some (PList [PStr (py_str_int (-12))])"
    "py_getitem0 (PList [PStr (py_str_int (-12))]) = Inr (PStr (py_str_int (-12)))"
    by (simp_all add: linked_socket_def)
  have s: "py_str_int (-12) = ''-12''" by code_simp
  show ?thesis using retrieve_angle_int_string [OF h] h s by simp
qed

text \<open>
  C16. Shape and allocation bounds of a normal run with the Verts output linked: the
  three outputs hold the same number of batches, the allocation counter advances by
  exactly that number (one \<open>bmesh_from_pydata\<close> per batch), and the live bmeshes are
  those before the run.
\<close>

theorem process_outputs_shape:
  assumes "heap_wf (sys_world s)" and "process K s = (Inr (), s')" and "is_linked (out_verts (sys_node s))"
  shows "\<exists>rv re rf. sv_cache (out_verts (sys_node s')) = Some rv \<and> sv_cache (out_edges (sys_node s')) = Some re \<and>
           sv_cache (out_polys (sys_node s')) = Some rf \<and> length re = length rv \<and> length rf = length rv \<and>
           bm_next (sys_world s') = bm_next (sys_world s) + length rv \<and> bm_heap (sys_world s') = bm_heap (sys_world s)"
proof (cases rule: process_spec_cases [of K "sys_node s"])
  case (err ex)
  with process_err [OF assms(1) err] assms(2) show ?thesis by auto
next
  case noop
  with assms(3) show ?thesis by (simp add: process_spec_None_iff)
next
  case (ok rv re rf)
  with process_ok_exact [OF assms(1) ok] assms(2) show ?thesis
    by (auto simp: set_outputs_def)
qed

theorem process_outputs_shape_witness:
  "heap_wf (sys_world example_sys) \<and>
   process identity_kernel example_sys = (Inr (), snd (process identity_kernel example_sys)) \<and>
   is_linked (out_verts (sys_node example_sys)) \<and>
   bm_next (sys_world (snd (process identity_kernel example_sys))) = 1"
proof -
  have h1: "heap_wf (sys_world example_sys)" by (simp add: example_defs heap_wf_def)
  have h2: "process identity_kernel example_sys = (Inr (), snd (process identity_kernel example_sys))"
    by (simp add: example_defs process_eval bind_st_def)
  have h3: "is_linked (out_verts (sys_node example_sys))" by (simp add: example_defs)
  have "bm_next (sys_world (snd (process identity_kernel example_sys))) = 1"
    by (simp add: example_defs process_eval bind_st_def)
  with process_outputs_shape [OF h1 h2 h3] h1 h2 h3 show ?thesis by blast
qed

text \<open>
  C17. Progress: with a kernel that never raises, the Verts output linked, data on the
  Verts input (Edges and Polys default to \<open>[[]]\<close>) and an angle that can be
  retrieved, \<open>process\<close> returns normally. The node itself raises nothing else.
\<close>

theorem process_total_kernel_returns:
  assumes "heap_wf (sys_world s)" and "kernel_total K" and "is_linked (out_verts (sys_node s))"
    and "sv_get (in_verts (sys_node s)) None = Inr vs"
    and "sv_get (in_edges (sys_node s)) (Some [[]]) = Inr es"
    and "sv_get (in_polys (sys_node s)) (Some [[]]) = Inr fs"
    and "retrieve_angle (sys_node s) = Inr a"
  shows "\<exists>s'. process K s = (Inr (), s')"
proof -
  obtain rv re rf where "process_spec K (sys_node s) = Inr (Some (rv, re, rf))"
    using process_spec_total [OF assms(2-7)] by blast
  from process_ok_exact [OF assms(1) this] show ?thesis by blast
qed

theorem process_total_kernel_returns_witness:
  "heap_wf (sys_world example_sys) \<and> kernel_total identity_kernel \<and>
   is_linked (out_verts (sys_node example_sys)) \<and>
   sv_get (in_verts (sys_node example_sys)) None = Inr [[(0, 0, 0), (1, 0, 0), (1, 1, 0)]] \<and>
   sv_get (in_edges (sys_node example_sys)) (Some [[]]) = Inr [[]] \<and>
   sv_get (in_polys (sys_node example_sys)) (Some [[]]) = Inr [[[0, 1, 2]]] \<and>
   retrieve_angle (sys_node example_sys) = Inr 5 \<and>
   (\<exists>s'. process identity_kernel example_sys = (Inr (), s'))"
proof -
  have h1: "heap_wf (sys_world example_sys)" by (simp add: example_defs heap_wf_def)
  have h2: "kernel_total identity_kernel" by (simp add: kernel_total_def identity_kernel_def)
  have h3: "is_linked (out_verts (sys_node example_sys))" by (simp add: example_defs)
  have h4: "sv_get (in_verts (sys_node example_sys)) None = Inr [[(0, 0, 0), (1, 0, 0), (1, 1, 0)]]"
    by (simp add: example_defs)
  have h5: "sv_get (in_edges (sys_node example_sys)) (Some [[]]) = Inr [[]]" by (simp add: example_defs)
  have h6: "sv_get (in_polys (sys_node example_sys)) (Some [[]]) = Inr [[[0, 1, 2]]]" by (simp add: example_defs)
  have h7: "retrieve_angle (sys_node example_sys) = Inr 5" by (simp add: example_defs retrieve_angle_def)
  show ?thesis using process_total_kernel_returns [OF h1 h2 h3 h4 h5 h6 h7] h1 h2 h3 h4 h5 h6 h7 by blast
qed

end
