(* ===== verification/NodeClass.thy ===== *)
theory NodeClass
  imports LimitedDissolve
begin

text \<open>
  The node class as the host sees it (\<open>src/nodes/modifier_change/limited_dissolve.py\<close>):
  its identity (\<open>bl_idname\<close>, \<open>bl_label\<close>, \<open>bl_icon\<close>, lines 28--32), its two
  declared properties (lines 34--35), the socket layout that \<open>sv_init\<close> builds with
  \<open>inputs.new\<close> and \<open>outputs.new\<close> (lines 37--46), the property panel drawn by
  \<open>draw_buttons\<close> (lines 48--49), and the module's \<open>register\<close> and
  \<open>unregister\<close> (lines 99--103). Blender's class registry (\<open>bpy.utils.register_class\<close>,
  \<open>unregister_class\<close>) is modelled from its documented behaviour, as a map from
  \<open>bl_idname\<close> to the registered class: registering a name twice raises ValueError,
  unregistering a class that is not registered raises RuntimeError.
\<close>

section \<open>The class\<close>

datatype socket_type = SvVerticesSocket | SvStringsSocket

text \<open>A property declaration: \<open>FloatProperty(default, min)\<close> or \<open>BoolProperty()\<close>.\<close>

datatype prop_decl = FloatProperty real "real option" | BoolProperty bool

record node_class =
  bl_idname :: string
  bl_label :: string
  bl_icon :: string
  class_props :: "(string \<times> prop_decl) list"

text \<open>Lines 28--35. \<open>BoolProperty\<close> defaults to False.\<close>

definition sv_limited_dissolve_class :: node_class where
  "sv_limited_dissolve_class =
     \<lparr>bl_idname = ''SvLimitedDissolve'', bl_label = ''Limited Dissolve'', bl_icon = ''MOD_DECIM'',
      class_props = [(''angle'', FloatProperty 5.0 (Some 0.0)),
                     (''use_dissolve_boundaries'', BoolProperty False)]\<rparr>"

section \<open>Sockets created by sv_init\<close>

record socket_decl =
  sock_type :: socket_type
  sock_name :: string
  sock_prop :: "string option"

text \<open>\<open>self.inputs.new(type, name)\<close> appends a socket showing no property.\<close>

definition sockets_new :: "socket_type \<Rightarrow> string \<Rightarrow> socket_decl list \<Rightarrow> socket_decl list" where
  "sockets_new t n socks = socks @ [\<lparr>sock_type = t, sock_name = n, sock_prop = None\<rparr>]"

text \<open>\<open>angle_socket.prop_name = 'angle'\<close>: sets the property of the socket just created.\<close>

definition set_last_prop :: "string \<Rightarrow> socket_decl list \<Rightarrow> socket_decl list" where
  "set_last_prop p socks = butlast socks @ [(last socks)\<lparr>sock_prop := Some p\<rparr>]"

text \<open>Lines 37--46: the inputs and the outputs, in the order of the calls.\<close>

definition sv_init_layout :: "socket_decl list \<times> socket_decl list" where
  "sv_init_layout =
     (let ins = sockets_new SvVerticesSocket ''Verts'' [];
          ins = sockets_new SvStringsSocket ''Edges'' ins;
          ins = sockets_new SvStringsSocket ''Polys'' ins;
          ins = set_last_prop ''angle'' (sockets_new SvStringsSocket ''Angle'' ins);
          outs = sockets_new SvVerticesSocket ''Verts'' [];
          outs = sockets_new SvStringsSocket ''Edges'' outs;
          outs = sockets_new SvStringsSocket ''Polys'' outs
      in (ins, outs))"

section \<open>The property panel\<close>

text \<open>Lines 48--49: \<open>layout.prop(self, "use_dissolve_boundaries")\<close>.\<close>

definition draw_buttons :: "string list" where
  "draw_buttons = [''use_dissolve_boundaries'']"

section \<open>Registration\<close>

type_synonym registry = "string \<rightharpoonup> node_class"

definition register_class :: "node_class \<Rightarrow> (registry, unit) pyst" where
  "register_class c r =
     (if bl_idname c \<in> dom r then (Inl ValueError, r) else (Inr (), r(bl_idname c \<mapsto> c)))"

definition unregister_class :: "node_class \<Rightarrow> (registry, unit) pyst" where
  "unregister_class c r =
     (if r (bl_idname c) = Some c then (Inr (), r(bl_idname c := None)) else (Inl RuntimeError, r))"

text \<open>Lines 99--103.\<close>

definition register :: "(registry, unit) pyst" where
  "register = register_class sv_limited_dissolve_class"

definition unregister :: "(registry, unit) pyst" where
  "unregister = unregister_class sv_limited_dissolve_class"

section \<open>Properties of the class\<close>

text \<open>
  C18. Registration round trip: when no class of that name is registered,
  \<open>register()\<close> followed by \<open>unregister()\<close> succeeds and leaves the registry as it
  was.
\<close>

theorem register_unregister_roundtrip:
  assumes "''SvLimitedDissolve'' \<notin> dom r"
  shows "bind_st register (\<lambda>_. unregister) r = (Inr (), r)"
  using assms by (auto simp add: register_def unregister_def register_class_def unregister_class_def
      sv_limited_dissolve_class_def bind_st_def fun_upd_idem)

theorem register_unregister_roundtrip_witness:
  "''SvLimitedDissolve'' \<notin> dom (Map.empty :: registry) \<and>
   bind_st register (\<lambda>_. unregister) Map.empty = (Inr (), Map.empty)"
  using register_unregister_roundtrip [of Map.empty] by simp

text \<open>
  C19. Registration errors: a second \<open>register()\<close> raises ValueError and keeps the
  first registration, and \<open>unregister()\<close> without a registration raises RuntimeError
  and changes nothing.
\<close>

theorem register_twice_raises:
  assumes "''SvLimitedDissolve'' \<notin> dom r"
  shows "bind_st register (\<lambda>_. register) r = (Inl ValueError, snd (register r)) \<and>
         unregister r = (Inl RuntimeError, r)"
  using assms by (auto simp add: register_def unregister_def register_class_def unregister_class_def
      sv_limited_dissolve_class_def bind_st_def)

theorem register_twice_raises_witness:
  "''SvLimitedDissolve'' \<notin> dom (Map.empty :: registry) \<and>
   bind_st register (\<lambda>_. register) Map.empty = (Inl ValueError, snd (register Map.empty)) \<and>
   unregister Map.empty = (Inl RuntimeError, Map.empty)"
  using register_twice_raises [of Map.empty] by simp

end
