(* ===== verification/Drawing.thy ===== *)
theory Drawing
  imports Prelude
begin

text \<open>
  The graphics-state facade (\<open>src/utils/modules/drawing_abstractions.py\<close>). At import
  the module builds the class \<open>shading_3d\<close>, whose shader names depend on
  \<open>bpy.app.version <= (3, 4)\<close>, the two classes \<open>Drawing\<close> (the \<open>gpu\<close> backend)
  and \<open>OldDrawing\<close> (the \<open>bgl\<close> backend), and binds \<open>drawing\<close> to an instance
  of one of them according to \<open>bpy.app.version >= (3, 5, 0)\<close>. Modelled here: Python's
  tuple comparison (\<open>py_tuple_lt\<close>), the two version tests, each class body as a table
  of its attributes as written (a built-in function, a lambda with its parameter count and
  the global names its body reads, a method, the module object \<open>bgl\<close>, or the statement
  \<open>pass\<close> written where an expression is needed), compiling the module, and calling an
  attribute through the instance \<open>drawing\<close> as Python does it (a function found on the
  class is bound to the instance, a built-in is not; free names of a function body are
  looked up in the module's globals, not in the class body).
\<close>

section \<open>Version tuples\<close>

text \<open>Python's \<open><\<close> on tuples of ints: the first differing element decides; a proper prefix is smaller.\<close>

fun py_tuple_lt :: "int list \<Rightarrow> int list \<Rightarrow> bool" where
  "py_tuple_lt [] [] = False"
| "py_tuple_lt [] (_ # _) = True"
| "py_tuple_lt (_ # _) [] = False"
| "py_tuple_lt (x # xs) (y # ys) = (if x = y then py_tuple_lt xs ys else x < y)"

definition py_tuple_le :: "int list \<Rightarrow> int list \<Rightarrow> bool" where
  "py_tuple_le xs ys \<longleftrightarrow> py_tuple_lt xs ys \<or> xs = ys"

text \<open>\<open>bpy.app.version\<close>: three non-negative components.\<close>

definition blender_version :: "int list \<Rightarrow> bool" where
  "blender_version v \<longleftrightarrow> length v = 3 \<and> list_all (\<lambda>x. 0 \<le> x) v"

record shading_names =
  UNIFORM_COLOR :: string
  SMOOTH_COLOR :: string

text \<open>Lines 16--22.\<close>

definition shading_3d :: "int list \<Rightarrow> shading_names" where
  "shading_3d version =
     (if py_tuple_le version [3, 4]
      then \<lparr>UNIFORM_COLOR = ''3D_UNIFORM_COLOR'', SMOOTH_COLOR = ''3D_SMOOTH_COLOR''\<rparr>
      else \<lparr>UNIFORM_COLOR = ''UNIFORM_COLOR'', SMOOTH_COLOR = ''SMOOTH_COLOR''\<rparr>)"

datatype backend = DrawingBackend | OldDrawingBackend

text \<open>Line 91: \<open>Drawing()\<close> from 3.5.0 on, \<open>OldDrawing()\<close> before.\<close>

definition select_backend :: "int list \<Rightarrow> backend" where
  "select_backend version =
     (if py_tuple_le [3, 5, 0] version then DrawingBackend else OldDrawingBackend)"

section \<open>Class bodies\<close>

datatype attr =
    Builtin string nat               \<comment> \<open>a built-in function of \<open>gpu\<close> or \<open>bgl\<close>, with its arity\<close>
  | Lambda nat "string list" string  \<comment> \<open>parameters, free names of the body, what the body calls\<close>
  | Method nat "string list" string  \<comment> \<open>a \<open>def\<close>: parameters (with \<open>self\<close>), free names, effect\<close>
  | ModuleAttr string                \<comment> \<open>\<open>import bgl\<close> inside the class body\<close>
  | PassStmt                         \<comment> \<open>\<open>name = pass\<close>\<close>

text \<open>Lines 24--46.\<close>

definition drawing_table :: "(string \<times> attr) list" where
  "drawing_table =
     [(''set_wireframe_line'', PassStmt),
      (''set_wireframe_fill'', PassStmt),
      (''set_line_width'', Builtin ''gpu.state.line_width_set'' 1),
      (''reset_line_width'', Lambda 0 [''gpu''] ''gpu.state.line_width_set(1)''),
      (''set_point_size'', Builtin ''gpu.state.point_size_set'' 1),
      (''reset_point_size'', Lambda 0 [''gpu''] ''gpu.state.point_size_set(1)''),
      (''enable_polygon_offset_fill'', PassStmt),
      (''disable_polygon_offset_fill'', PassStmt),
      (''set_polygon_offset_amounts'', PassStmt),
      (''enable_blendmode'', PassStmt),
      (''disable_blendmode'', PassStmt),
      (''enable_depth_test'', PassStmt),
      (''disable_depth_test'', PassStmt),
      (''new_buffer_texture'', PassStmt),
      (''get_buffer'', PassStmt),
      (''bind_texture_2d'', PassStmt),
      (''init_complex_texture'', PassStmt),
      (''generate_textures'', PassStmt),
      (''delete_texture'', PassStmt)]"

text \<open>Lines 50--88.\<close>

definition old_drawing_table :: "(string \<times> attr) list" where
  "old_drawing_table =
     [(''bgl'', ModuleAttr ''bgl''),
      (''set_wireframe_line'', Lambda 0 [''bgl''] ''bgl.glPolygonMode(GL_FRONT_AND_BACK, GL_LINE)''),
      (''set_wireframe_fill'', Lambda 0 [''bgl''] ''bgl.glPolygonMode(GL_FRONT_AND_BACK, GL_FILL)''),
      (''set_line_width'', Builtin ''bgl.glLineWidth'' 1),
      (''reset_line_width'', Lambda 0 [''bgl''] ''bgl.glLineWidth(1)''),
      (''set_point_size'', Builtin ''bgl.glPointSize'' 1),
      (''reset_point_size'', Lambda 0 [''bgl''] ''bgl.glPointSize(1)''),
      (''enable_polygon_offset_fill'', Lambda 0 [''bgl''] ''bgl.glEnable(GL_POLYGON_OFFSET_FILL)''),
      (''disable_polygon_offset_fill'', Lambda 0 [''bgl''] ''bgl.glDisable(GL_POLYGON_OFFSET_FILL)''),
      (''set_polygon_offset_amounts'', Lambda 0 [''bgl''] ''bgl.glPolygonOffset(1.0, 1.0)''),
      (''enable_blendmode'', Lambda 0 [''bgl''] ''bgl.glEnable(GL_BLEND)''),
      (''disable_blendmode'', Lambda 0 [''bgl''] ''bgl.glDisable(GL_BLEND)''),
      (''enable_depth_test'', Lambda 0 [''bgl''] ''bgl.glEnable(GL_DEPTH_TEST)''),
      (''disable_depth_test'', Lambda 0 [''bgl''] ''bgl.glDisable(GL_DEPTH_TEST)''),
      (''new_buffer_texture'', Lambda 0 [''bgl''] ''bgl.Buffer(GL_INT, 1)''),
      (''get_buffer'', Lambda 1 [''bgl''] ''bgl.Buffer(GL_INT, 1, indexed_buffer)''),
      (''new_buffer_texture_sized'', Lambda 2 [''bgl''] ''bgl.Buffer(GL_FLOAT, size, data)''),
      (''bind_texture_2d'', Lambda 1 [''bgl''] ''bgl.glBindTexture(GL_TEXTURE_2D, texture)''),
      (''delete_texture'', Lambda 1 [''bgl''] ''bgl.glDeleteTextures(1, texture)''),
      (''init_complex_texture'', Method 7 [''bgl''] ''bgl.glTexImage2D(...)''),
      (''generate_textures'', Lambda 1 [''bgl''] ''bgl.glGenTextures(1, name)'')]"

text \<open>The names the module binds at its top level (lines 11--13, 16, 24, 50, 91).\<close>

definition module_globals :: "string list" where
  "module_globals = [''bpy'', ''gpu'', ''NamedTuple'', ''shading_3d'', ''Drawing'', ''OldDrawing'', ''drawing'']"

section \<open>Import and calls\<close>

text \<open>A class body compiles unless it assigns the statement \<open>pass\<close>.\<close>

definition body_compiles :: "(string \<times> attr) list \<Rightarrow> bool" where
  "body_compiles tbl \<longleftrightarrow> list_all (\<lambda>(_, a). a \<noteq> PassStmt) tbl"

definition backend_table :: "backend \<Rightarrow> (string \<times> attr) list" where
  "backend_table b = (case b of DrawingBackend \<Rightarrow> drawing_table | OldDrawingBackend \<Rightarrow> old_drawing_table)"

text \<open>
  Importing the module: the whole file is compiled first, then \<open>drawing\<close> is bound
  (line 91). The result is the backend \<open>drawing\<close> is an instance of.
\<close>

definition import_module :: "int list \<Rightarrow> backend py_result" where
  "import_module version =
     (if body_compiles drawing_table \<and> body_compiles old_drawing_table
      then Inr (select_backend version) else Inl SyntaxError)"

text \<open>
  \<open>drawing.name(*args)\<close> with \<open>nargs\<close> arguments: attribute lookup on the class
  (a later assignment in the body wins); a function is bound, so \<open>self\<close> is passed
  first and its parameter count must be \<open>nargs + 1\<close>; a built-in is not bound; the
  free names of a function body must be module globals.
\<close>

definition call_via_instance :: "(string \<times> attr) list \<Rightarrow> string \<Rightarrow> nat \<Rightarrow> string py_result" where
  "call_via_instance tbl name nargs =
     (case map_of (rev tbl) name of
        None \<Rightarrow> Inl AttributeError
      | Some (Builtin f k) \<Rightarrow> if nargs = k then Inr f else Inl TypeError
      | Some (Lambda k free eff) \<Rightarrow>
          if Suc nargs \<noteq> k then Inl TypeError
          else if list_all (\<lambda>x. x \<in> set module_globals) free then Inr eff else Inl NameError
      | Some (Method k free eff) \<Rightarrow>
          if Suc nargs \<noteq> k then Inl TypeError
          else if list_all (\<lambda>x. x \<in> set module_globals) free then Inr eff else Inl NameError
      | Some (ModuleAttr m) \<Rightarrow> Inl TypeError
      | Some PassStmt \<Rightarrow> Inl SyntaxError)"

definition drawing_call :: "int list \<Rightarrow> string \<Rightarrow> nat \<Rightarrow> string py_result" where
  "drawing_call version name nargs =
     bind_res (import_module version) (\<lambda>b. call_via_instance (backend_table b) name nargs)"

text \<open>
  The method \<open>OldDrawing.init_complex_texture\<close> (lines 74--86), run on a trace of the
  \<open>bgl\<close> calls issued so far. \<open>globals\<close> are the module's global names: a name
  read in a function body is looked up there (\<open>bgl\<close>, imported in the class body, is
  not among them). Statements run in Python's order: the \<open>format\<close> conversion
  (line 76, reading \<open>bgl\<close> only when \<open>format == 'RGBA'\<close>); on line 77 the
  callee \<open>self.new_buffer_texture_sized\<close>, then the arguments (\<open>bgl.GL_FLOAT\<close>
  first), then the call through the instance; then the nine GL calls, each reading
  \<open>bgl\<close> before it is issued.
\<close>

type_synonym gl_trace = "string list"

definition bgl_lookup :: "string list \<Rightarrow> (gl_trace, unit) pyst" where
  "bgl_lookup globals = (if ''bgl'' \<in> set globals then ok () else py_raise NameError)"

definition bgl_call :: "string list \<Rightarrow> string \<Rightarrow> (gl_trace, unit) pyst" where
  "bgl_call globals c = bind_st (bgl_lookup globals) (\<lambda>_ tr. (Inr (), tr @ [c]))"

definition init_complex_texture ::
  "string list \<Rightarrow> (string \<times> attr) list \<Rightarrow> string \<Rightarrow> (gl_trace, unit) pyst" where
  "init_complex_texture globals tbl format =
     bind_st (if format = ''RGBA'' then bind_st (bgl_lookup globals) (\<lambda>_. ok ''GL_RGBA'') else ok format)
       (\<lambda>fmt.
     bind_st (bgl_lookup globals) (\<lambda>_.
     bind_st (lift_res (call_via_instance tbl ''new_buffer_texture_sized'' 3)) (\<lambda>texture.
     bind_st (bgl_call globals ''glPixelStorei(GL_UNPACK_ALIGNMENT, 1)'') (\<lambda>_.
     bind_st (bgl_call globals ''glEnable(GL_TEXTURE_2D)'') (\<lambda>_.
     bind_st (bgl_call globals ''glBindTexture(GL_TEXTURE_2D, texname)'') (\<lambda>_.
     bind_st (bgl_call globals ''glActiveTexture(GL_TEXTURE0)'') (\<lambda>_.
     bind_st (bgl_call globals ''glTexParameterf(GL_TEXTURE_2D, GL_TEXTURE_WRAP_S, GL_CLAMP_TO_EDGE)'') (\<lambda>_.
     bind_st (bgl_call globals ''glTexParameterf(GL_TEXTURE_2D, GL_TEXTURE_WRAP_T, GL_CLAMP_TO_EDGE)'') (\<lambda>_.
     bind_st (bgl_call globals ''glTexParameterf(GL_TEXTURE_2D, GL_TEXTURE_MAG_FILTER, GL_LINEAR)'') (\<lambda>_.
     bind_st (bgl_call globals ''glTexParameterf(GL_TEXTURE_2D, GL_TEXTURE_MIN_FILTER, GL_LINEAR)'') (\<lambda>_.
     bgl_call globals (''glTexImage2D(GL_TEXTURE_2D, 0, '' @ fmt @ '', width, height, 0, '' @ fmt @
                       '', GL_FLOAT, '' @ texture @ '')''))))))))))))"

section \<open>Properties of the facade\<close>

lemma blender_version_cases:
  "blender_version v \<Longrightarrow> \<exists>a b c. v = [a, b, c] \<and> 0 \<le> a \<and> 0 \<le> b \<and> 0 \<le> c"
  by (auto simp: blender_version_def numeral_eq_Suc length_Suc_conv)

text \<open>
  C12. The two version tests disagree exactly on the 3.4.x releases: there the shader
  names are the new ones while \<open>drawing\<close> is the old \<open>bgl\<close> backend.
\<close>

theorem shading_backend_mismatch:
  assumes "blender_version v"
  shows "(UNIFORM_COLOR (shading_3d v) = ''UNIFORM_COLOR'' \<and> select_backend v = OldDrawingBackend) \<longleftrightarrow>
         (py_tuple_le [3, 4, 0] v \<and> py_tuple_lt v [3, 5, 0])"
  using blender_version_cases [OF assms]
  by (auto simp: py_tuple_le_def shading_3d_def select_backend_def split: if_splits)

theorem shading_backend_mismatch_witness:
  "blender_version [3, 4, 1] \<and> UNIFORM_COLOR (shading_3d [3, 4, 1]) = ''UNIFORM_COLOR'' \<and>
   select_backend [3, 4, 1] = OldDrawingBackend"
proof -
  have h: "blender_version [3, 4, 1]" by (simp add: blender_version_def)
  have "py_tuple_le [3, 4, 0] [3, 4, 1] \<and> py_tuple_lt [3, 4, 1] [3, 5, 0]"
    by (simp add: py_tuple_le_def)
  then show ?thesis using shading_backend_mismatch [OF h] h by blast
qed

end
