(* ===== verification/Spec2Isabelle.thy ===== *)
theory Spec2Isabelle
  imports NodeClass Drawing
begin

text \<open>
  \<^bold>\<open>A verification library for two modules of Sverchok.\<close>

  \<^medskip>
  \<^bold>\<open>The program.\<close> Two independent parts, sharing no data.
  \<^item> The Limited Dissolve node, \<open>src/nodes/modifier_change/limited_dissolve.py\<close>, class
    \<open>SvLimitedDissolve\<close>. It reads batches of vertices, edges and faces and an angle
    from its input sockets. It matches them to a common length (Sverchok's
    \<open>match_long_repeat\<close>), and for each batch builds a bmesh, runs Blender's
    \<open>bmesh.ops.dissolve_limit\<close>, exports the mesh and frees the bmesh. It then stores the
    three result collections on its output sockets.
  \<^item> The graphics-state facade, \<open>src/utils/modules/drawing_abstractions.py\<close>. It chooses
    shader names (\<open>shading_3d\<close>) and a drawing backend (\<open>Drawing\<close> on \<open>gpu\<close>,
    \<open>OldDrawing\<close> on \<open>bgl\<close>) from the host version, and binds \<open>drawing\<close> to an
    instance of one of them.

  \<^medskip>
  \<^bold>\<open>Theories.\<close>
  \<^item> \<open>Prelude\<close>: the Python exceptions (\<open>py_exc\<close>) and results
    (\<open>'a py_result = py_exc + 'a\<close>). Also computations over a state that may raise
    (\<open>('s, 'a) pyst\<close>, with \<open>ok\<close>, \<open>py_raise\<close>, \<open>bind_st\<close>, \<open>lift_res\<close>), where an
    exception is returned with the state reached when it was raised. Also the combinator
    \<open>preserves\<close> for invariants kept along such sequences, \<open>try/except\<close> as
    \<open>except_default\<close>, and list lemmas on padding with the last element.
  \<^item> \<open>DataStructure\<close>: \<open>repeat_last_for_length\<close>, \<open>match_long_repeat\<close>, and the
    node's four-collection instance \<open>match_long_repeat4\<close> (line 76). Also Python's
    \<open>zip(*meshes)\<close> as \<open>zip4\<close> (line 82). The library module is not in this
    repository; it is modelled from the spec's long-repeat contract.
  \<^item> \<open>PyValue\<close>: the Python values an Angle socket may carry (\<open>pyval\<close>), \<open>x[0]\<close>
    (\<open>py_getitem0\<close>), \<open>isinstance(x, (list, tuple))\<close> and \<open>float(x)\<close>
    (\<open>py_float\<close>, with a decimal parser for strings), and Python's \<open>str()\<close> of an
    integer (\<open>py_str_int\<close>) with the lemma that the parser reads it back.
  \<^item> \<open>Sockets\<close>: sockets (linked or not, their cached data), \<open>sv_get\<close> with or
    without a default, and \<open>sv_set\<close>. Modelled from the spec.
  \<^item> \<open>MeshKernel\<close>: the kernel as an interface, a record of three functions over an
    abstract mesh type (construct, dissolve, export); every theorem holds for every
    kernel. Also the store of live bmeshes (\<open>bm_world\<close>) and the four operations the
    node performs on it (lines 83--89), with the store invariant \<open>heap_wf\<close>: live handles
    are below the allocation counter.
  \<^item> \<open>LimitedDissolve\<close>: the node's state (\<open>sv_limited_dissolve\<close>, lines 28--35) and
    the system state with the bmesh store (\<open>sys\<close>). It also holds node creation
    (\<open>sv_init\<close>), the UI edits of the two properties (\<open>set_angle\<close> clamps at
    \<open>min=0.0\<close>), the angle retrieval (\<open>retrieve_angle\<close>, lines 59--73), the batch
    loop (\<open>dissolve_loop\<close>, lines 78--93), the output stores (\<open>set_outputs\<close>), the
    method (\<open>process\<close> with its early return, and \<open>process_linked\<close>), and the host
    lifecycle as an inductive relation (\<open>reachable\<close>). The abstract contract
    \<open>process_spec\<close> gives the node's result without handles: per aligned batch,
    construct-dissolve-export (\<open>limited_dissolve_mesh\<close>), failing with the first failing
    batch.
  \<^item> \<open>NodeClass\<close>: the node class as the host sees it. It holds \<open>bl_idname\<close>,
    \<open>bl_label\<close>, \<open>bl_icon\<close> and the two property declarations
    (\<open>sv_limited_dissolve_class\<close>, lines 28--35), and the sockets \<open>sv_init\<close> creates, call by
    call (\<open>sv_init_layout\<close>, lines 37--46). Also the panel of \<open>draw_buttons\<close>
    (lines 48--49), and \<open>register\<close>/\<open>unregister\<close> (lines 99--103) over a model of Blender's
    class registry (\<open>register_class\<close>, \<open>unregister_class\<close>, a map keyed by
    \<open>bl_idname\<close>).
  \<^item> \<open>Drawing\<close>: Python tuple comparison (\<open>py_tuple_lt\<close>), the two version tests
    (\<open>shading_3d\<close>, \<open>select_backend\<close>), and both class bodies as attribute tables as
    written (\<open>drawing_table\<close>, \<open>old_drawing_table\<close>). Also compiling and importing the
    module (\<open>import_module\<close>), and a call through the instance with Python's binding
    of functions stored on a class and its global name lookup (\<open>call_via_instance\<close>).
    The body of \<open>OldDrawing.init_complex_texture\<close> (lines 74--86) is modelled statement
    by statement over a trace of the \<open>bgl\<close> calls it issues (\<open>init_complex_texture\<close>).
  \<^item> This theory: the properties that span the node, the matching and the kernel (C9, C13),
    stated with a kernel that refuses negative angles (\<open>guard_negative_angles\<close>).

  \<^medskip>
  \<^bold>\<open>What is proved.\<close> Claims C1--C19, each stated after a text naming it.
  \<^item> Refinement of the node against its contract:
    \<^item> on success the outputs are exactly the contract's and every bmesh is freed (C1);
    \<^item> the exception raised is exactly the contract's (C2);
    \<^item> on an exception no output changes (C5);
    \<^item> a normal run leaves outputs of one shape and advances the allocation counter by
      exactly the batch count (C16);
    \<^item> with a kernel that never raises and the inputs present, every run returns
      normally (C17).
  \<^item> The spec's testable properties: the output batch count (C3), the angle fallback
    (C4) and re-evaluation (C10), and long-repeat alignment at every index (C11).
  \<^item> An invariant over every reachable state: the stored angle is non-negative and the
    store is well formed (C8, by rule induction over \<open>reachable\<close>). With it, no batch of
    a reachable node with no Angle link reaches \<open>dissolve_limit\<close> with a negative angle
    (C13).
  \<^item> The angle retrieval: the exact set of exceptions it lets escape (C14), and that a
    number sent as \<open>str(k)\<close> is read back as \<open>k\<close> (C15).
  \<^item> Findings in the node:
    \<^item> when a dissolve raises, exactly one bmesh is left live (C6);
    \<^item> an empty Angle list raises IndexError rather than falling back (C7);
    \<^item> a negative number on the Angle input reaches the kernel despite \<open>min=0.0\<close> (C9).
  \<^item> Registration round-trips (C18), and raises on a double registration or on an
    unregistration without a registration (C19).
  \<^item> The facade: the two version tests disagree exactly on the 3.4.x releases, where the
    shader names are the new ones and the backend is the old one (C12).
  \<^item> Findings recorded in the manifest with no theorem, because on this model they are a
    computation on the constant class tables:
    \<^item> the facade's module does not compile (\<open>= pass\<close>);
    \<^item> the \<open>OldDrawing\<close> lambdas, being class attributes, are bound to the instance;
    \<^item> \<open>bgl\<close> is not visible in their bodies;
    \<^item> only the Verts output is checked by the node's early return.

  \<^medskip>
  \<^bold>\<open>Choices and limits.\<close>
  \<^item> No fuel or bounds are needed: the batch loop is structural recursion over the
    matched batches, and every definition is executable. The \<open>for\<close> loop of the
    node runs over a finite list, so the model is total by construction; no separate
    termination theorem is stated. The theorems are evaluated at
    concrete inputs by \<open>simp\<close> and \<open>code_simp\<close>: an identity kernel, a kernel whose
    dissolve raises, and a triangle.
  \<^item> Not modelled:
    \<^item> the geometry of limited dissolve (Blender's kernel; the spec's quad example and
      boundary-flag monotonicity are properties of that kernel, not of this code);
    \<^item> how Blender lays out and draws the panel: \<open>draw_buttons\<close> is modelled only as
      the list of properties it shows;
    \<^item> \<open>updateNode\<close>, the update callback of the two properties: an edit is followed by
      an evaluation, which the \<open>evaluate\<close> rule of \<open>reachable\<close> allows at any time;
    \<^item> Sverchok's implicit socket conversions;
    \<^item> \<open>float()\<close> of \<open>inf\<close>, \<open>nan\<close> and digit groups with \<open>_\<close>, and float
      overflow (values are finite reals);
    \<^item> a dissolve that raises part-way is taken to leave the bmesh unchanged;
    \<^item> the effect of the \<open>gpu\<close> and \<open>bgl\<close> calls on the graphics state: the
      module never imports and no call of \<open>OldDrawing\<close> reaches a GL function
      (both recorded as findings), so only which calls are issued, and in what order, is modelled.
\<close>

section \<open>Properties across components\<close>

text \<open>
  A kernel that refuses negative angles: it behaves as \<open>K\<close> except that its dissolve
  raises on a negative \<open>angle_limit\<close>. A node that behaves the same over it as over
  \<open>K\<close> never hands a negative angle to \<open>dissolve_limit\<close>.
\<close>

definition guard_negative_angles :: "('v, 'e, 'f, 'm) mesh_kernel \<Rightarrow> ('v, 'e, 'f, 'm) mesh_kernel" where
  "guard_negative_angles K =
     K\<lparr>dissolve := (\<lambda>a b m. if 0 \<le> a then dissolve K a b m else Inl ValueError)\<rparr>"

text \<open>
  The example node with \<open>-1\<close> on its linked Angle input and its Edges input linked:
  over a kernel that refuses negative angles it raises, so the guard is not vacuous.
\<close>

definition negative_input_sys :: "(vert, edge, face, pymesh) sys" where
  "negative_input_sys =
     example_sys\<lparr>sys_node := example_node\<lparr>in_angle := Some (linked_socket (PList [PFloat (-1)])),
                                         in_edges := linked_socket [[]]\<rparr>\<rparr>"

text \<open>Construction and export do not involve the angle; dissolving with a non-negative
  angle is unchanged.\<close>

lemma bmesh_from_pydata_guard [simp]:
  "bmesh_from_pydata (guard_negative_angles K) = bmesh_from_pydata K"
  by (intro ext) (simp add: bmesh_from_pydata_def guard_negative_angles_def)

lemma pydata_from_bmesh_guard [simp]:
  "pydata_from_bmesh (guard_negative_angles K) = pydata_from_bmesh K"
  by (intro ext) (simp add: pydata_from_bmesh_def guard_negative_angles_def split: option.splits)

lemma dissolve_limit_guard [simp]:
  "0 \<le> a \<Longrightarrow> dissolve_limit (guard_negative_angles K) bm a b = dissolve_limit K bm a b"
  by (intro ext) (simp add: dissolve_limit_def guard_negative_angles_def split: option.splits)

lemma dissolve_loop_guard:
  "\<forall>x\<in>set xs. 0 \<le> snd (snd (snd x)) \<Longrightarrow>
     dissolve_loop (guard_negative_angles K) b xs acc = dissolve_loop K b xs acc"
proof (induction xs arbitrary: acc)
  case Nil
  then show ?case by simp
next
  case (Cons x xs)
  obtain verts edges faces a where x: "x = (verts, edges, faces, a)" by (cases x)
  obtain rv re rf where acc: "acc = (rv, re, rf)" by (cases acc)
  from Cons.prems x have a: "0 \<le> a" by simp
  from Cons.prems have IH: "dissolve_loop (guard_negative_angles K) b xs acc' = dissolve_loop K b xs acc'" for acc'
    by (intro Cons.IH) simp
  show ?case
    by (simp add: x acc IH a)
qed

lemma dissolve_loop_guard_matched:
  assumes a: "0 \<le> a"
  shows "dissolve_loop (guard_negative_angles K) b
           (zip4 (fst (match_long_repeat4 vs es fs [a])) (fst (snd (match_long_repeat4 vs es fs [a])))
                 (fst (snd (snd (match_long_repeat4 vs es fs [a]))))
                 (snd (snd (snd (match_long_repeat4 vs es fs [a]))))) acc =
         dissolve_loop K b
           (zip4 (fst (match_long_repeat4 vs es fs [a])) (fst (snd (match_long_repeat4 vs es fs [a])))
                 (fst (snd (snd (match_long_repeat4 vs es fs [a]))))
                 (snd (snd (snd (match_long_repeat4 vs es fs [a]))))) acc"
proof -
  obtain mv me mf ma where m4: "match_long_repeat4 vs es fs [a] = (mv, me, mf, ma)"
    by (cases "match_long_repeat4 vs es fs [a]") auto
  have "\<forall>x\<in>set (zip4 mv me mf ma). 0 \<le> snd (snd (snd x))"
    using match_long_repeat4_angles [OF m4] a by auto
  then show ?thesis by (simp add: m4 dissolve_loop_guard)
qed

text \<open>
  C13. Node, matching and kernel together: in every reachable state whose Angle input is
  absent or unlinked, no batch reaches \<open>dissolve_limit\<close> with a negative angle. The
  node then behaves over a kernel that refuses negative angles exactly as over the
  kernel itself. The stored angle is kept non-negative by the lifecycle, and matching
  repeats it over all batches.
\<close>

theorem reachable_kernel_sees_nonneg_angles:
  assumes "reachable K s" and "\<forall>sk. in_angle (sys_node s) = Some sk \<longrightarrow> \<not> is_linked sk"
  shows "process (guard_negative_angles K) s = process K s"
proof -
  have a: "0 \<le> angle (sys_node s)" using reachable_angle_nonneg [OF assms(1)] .
  have ra: "retrieve_angle (sys_node s) = Inr (angle (sys_node s))"
    using assms(2) by (cases "in_angle (sys_node s)") (simp_all add: retrieve_angle_def)
  show ?thesis
    by (simp add: process_def process_linked_def ra split_def a dissolve_loop_guard_matched)
qed

theorem reachable_kernel_sees_nonneg_angles_witness:
  "reachable identity_kernel example_sys \<and>
   in_angle (sys_node example_sys) = Some (new_socket\<lparr>prop_name := ''angle''\<rparr>) \<and>
   \<not> is_linked (new_socket\<lparr>prop_name := ''angle''\<rparr> :: pyval socket) \<and>
   process (guard_negative_angles identity_kernel) example_sys = process identity_kernel example_sys \<and>
   fst (process (guard_negative_angles identity_kernel) negative_input_sys) = Inl ValueError \<and>
   fst (process identity_kernel negative_input_sys) = Inr ()"
proof -
  have r: "reachable identity_kernel (\<lparr>sys_node = sv_init, sys_world = bm_world_init\<rparr>\<lparr>sys_node := example_node\<rparr>)"
    by (rule reachable.relink [OF reachable.init]) (simp_all add: example_node_def)
  then have h1: "reachable identity_kernel example_sys" by (simp add: example_sys_def)
  have a: "in_angle (sys_node example_sys) = Some (new_socket\<lparr>prop_name := ''angle''\<rparr>)"
    "\<not> is_linked (new_socket\<lparr>prop_name := ''angle''\<rparr> :: pyval socket)"
    by (simp_all add: example_defs)
  then have h2: "\<forall>sk. in_angle (sys_node example_sys) = Some sk \<longrightarrow> \<not> is_linked sk" by simp
  have neg: "fst (process (guard_negative_angles identity_kernel) negative_input_sys) = Inl ValueError"
    by (simp add: negative_input_sys_def example_defs process_eval guard_negative_angles_def bind_st_def)
  have pos: "fst (process identity_kernel negative_input_sys) = Inr ()"
    by (simp add: negative_input_sys_def example_defs process_eval bind_st_def)
  show ?thesis using reachable_kernel_sees_nonneg_angles [OF h1 h2] h1 a neg pos by blast
qed

text \<open>
  C9. The property's minimum does not bound the angle the kernel receives. Take a reachable
  node (so its stored angle is non-negative), a kernel that never raises, the Verts output
  linked and non-empty Verts, Edges and Polys. If a negative number arrives first on its
  linked Angle input, \<open>process\<close> hands it to \<open>dissolve_limit\<close>: it returns
  normally, yet it raises over the same kernel guarded against negative angles.
\<close>

theorem negative_angle_reaches_kernel:
  assumes r: "reachable K s" and kt: "kernel_total K" and linked: "is_linked (out_verts (sys_node s))"
    and gv: "sv_get (in_verts (sys_node s)) None = Inr vs" and ge: "sv_get (in_edges (sys_node s)) (Some [[]]) = Inr es"
    and gf: "sv_get (in_polys (sys_node s)) (Some [[]]) = Inr fs"
    and ne: "vs \<noteq> []" "es \<noteq> []" "fs \<noteq> []"
    and sk: "in_angle (sys_node s) = Some sk" "is_linked sk" "sv_cache sk = Some v"
    and v0: "py_getitem0 v = Inr (PFloat x)" and neg: "x < 0"
  shows "0 \<le> angle (sys_node s) \<and> fst (process (guard_negative_angles K) s) = Inl ValueError \<and>
         fst (process K s) = Inr ()"
proof -
  have wf: "heap_wf (sys_world s)" using r by (rule reachable_heap_wf)
  have ra: "retrieve_angle (sys_node s) = Inr x" using sk v0 by (simp add: retrieve_angle_def)
  obtain rv re rf where ok: "process_spec K (sys_node s) = Inr (Some (rv, re, rf))"
    using process_spec_total [OF kt linked gv ge gf ra] by blast
  have run: "fst (process K s) = Inr ()" using process_ok_exact [OF wf ok] by simp
  obtain mv me mf ma where m4: "match_long_repeat4 vs es fs [x] = (mv, me, mf, ma)"
    by (cases "match_long_repeat4 vs es fs [x]") auto
  have "length (zip4 mv me mf ma) \<noteq> 0"
    using length_zip4_match_long_repeat4 [OF m4] ne by simp
  then obtain y ys where zs: "zip4 mv me mf ma = y # ys" by (cases "zip4 mv me mf ma") auto
  obtain yv ye yf ya where y: "y = (yv, ye, yf, ya)" by (cases y)
  have "ya = x" using match_long_repeat4_angles [OF m4, of y] by (simp add: zs y)
  moreover obtain m where m: "from_pydata K yv ye yf = Inr m" using kt unfolding kernel_total_def by blast
  ultimately have "limited_dissolve_mesh (guard_negative_angles K) (use_dissolve_boundaries (sys_node s)) y = Inl ValueError"
    using neg by (simp add: y limited_dissolve_mesh_def guard_negative_angles_def)
  then have "process_spec (guard_negative_angles K) (sys_node s) = Inl ValueError"
    using linked gv ge gf ra m4 zs by (simp add: process_spec_def)
  from process_err [OF wf this] have "fst (process (guard_negative_angles K) s) = Inl ValueError" by auto
  with run reachable_angle_nonneg [OF r] show ?thesis by simp
qed

theorem negative_angle_reaches_kernel_witness:
  "reachable identity_kernel negative_input_sys \<and> kernel_total identity_kernel \<and>
   is_linked (out_verts (sys_node negative_input_sys)) \<and>
   sv_get (in_verts (sys_node negative_input_sys)) None = Inr [[(0, 0, 0), (1, 0, 0), (1, 1, 0)]] \<and>
   sv_get (in_edges (sys_node negative_input_sys)) (Some [[]]) = Inr [[]] \<and>
   sv_get (in_polys (sys_node negative_input_sys)) (Some [[]]) = Inr [[[0, 1, 2]]] \<and>
   in_angle (sys_node negative_input_sys) = Some (linked_socket (PList [PFloat (-1)])) \<and>
   is_linked (linked_socket (PList [PFloat (-1)])) \<and>
   sv_cache (linked_socket (PList [PFloat (-1)])) = Some (PList [PFloat (-1)]) \<and>
   py_getitem0 (PList [PFloat (-1)]) = Inr (PFloat (-1)) \<and>
   fst (process (guard_negative_angles identity_kernel) negative_input_sys) = Inl ValueError \<and>
   fst (process identity_kernel negative_input_sys) = Inr ()"
proof -
  have r: "reachable identity_kernel (\<lparr>sys_node = sv_init, sys_world = bm_world_init\<rparr>
      \<lparr>sys_node := example_node\<lparr>in_angle := Some (linked_socket (PList [PFloat (-1)])),
                                  in_edges := linked_socket [[]]\<rparr>\<rparr>)"
    by (rule reachable.relink [OF reachable.init]) (simp_all add: example_node_def)
  then have h1: "reachable identity_kernel negative_input_sys"
    by (simp add: negative_input_sys_def example_sys_def)
  have h2: "kernel_total identity_kernel" by (simp add: kernel_total_def identity_kernel_def)
  have h: "is_linked (out_verts (sys_node negative_input_sys))"
    "sv_get (in_verts (sys_node negative_input_sys)) None = Inr [[(0, 0, 0), (1, 0, 0), (1, 1, 0)]]"
    "sv_get (in_edges (sys_node negative_input_sys)) (Some [[]]) = Inr [[]]"
    "sv_get (in_polys (sys_node negative_input_sys)) (Some [[]]) = Inr [[[0, 1, 2]]]"
    "in_angle (sys_node negative_input_sys) = Some (linked_socket (PList [PFloat (-1)]))"
    "is_linked (linked_socket (PList [PFloat (-1)]))"
    "sv_cache (linked_socket (PList [PFloat (-1)])) = Some (PList [PFloat (-1)])"
    by (simp_all add: negative_input_sys_def example_defs)
  have ne: "[[(0::real, 0::real, 0::real), (1, 0, 0), (1, 1, 0)]] \<noteq> []" "[[]::edge list] \<noteq> []"
    "[[[0::nat, 1, 2]]] \<noteq> []" by simp_all
  have g: "py_getitem0 (PList [PFloat (-1)]) = Inr (PFloat (-1))" by simp
  have n: "(-1::real) < 0" by simp
  show ?thesis
    using negative_angle_reaches_kernel [OF h1 h2 h(1-4) ne h(5-7) g n] h1 h2 h g by blast
qed

end
